theory Spec2Isabelle
  imports Main "HOL-Library.AList" "HOL-Library.List_Lexorder" "HOL-Library.Char_ord"
begin

section \<open>Python values\<close>

text \<open>
  Payloads and stored configurations are JSON documents as \<open>simplejson\<close> loads them:
  \<open>None\<close>, \<open>bool\<close>, \<open>int\<close>, \<open>str\<close>, \<open>list\<close> and \<open>dict\<close>. A \<open>dict\<close> is an
  association list in insertion order, looked up with \<open>map_of\<close>. JSON numbers with a
  fraction (Python \<open>float\<close>) are outside the model.
\<close>

datatype json =
    JNull
  | JBool bool
  | JInt int
  | JStr string
  | JList "json list"
  | JObj "(string \<times> json) list"

type_synonym dict = "(string \<times> json) list"

text \<open>The exceptions the code raises or catches by class (\<open>FileNotFoundError\<close> is an
  \<open>OSError\<close>, a JSON decoding error is a \<open>ValueError\<close>).\<close>

datatype exn =
    KeyError
  | AttributeError
  | TypeError
  | ValueError
  | OSError
  | RuntimeError

text \<open>\<open>bool(x)\<close>, as \<open>or\<close> and \<open>if\<close> use it.\<close>

fun truthy :: "json \<Rightarrow> bool" where
  "truthy JNull = False"
| "truthy (JBool b) = b"
| "truthy (JInt i) = (i \<noteq> 0)"
| "truthy (JStr s) = (s \<noteq> [])"
| "truthy (JList xs) = (xs \<noteq> [])"
| "truthy (JObj d) = (d \<noteq> [])"

text \<open>\<open>x[k]\<close> with a string key: only a \<open>dict\<close> accepts it.\<close>

fun py_getitem :: "json \<Rightarrow> string \<Rightarrow> exn + json" where
  "py_getitem (JObj d) k = (case map_of d k of None \<Rightarrow> Inl KeyError | Some v \<Rightarrow> Inr v)"
| "py_getitem _ k = Inl TypeError"

text \<open>\<open>x.get(k, dflt)\<close>: only a \<open>dict\<close> has the method.\<close>

fun py_get :: "json \<Rightarrow> string \<Rightarrow> json \<Rightarrow> exn + json" where
  "py_get (JObj d) k dflt = Inr (case map_of d k of None \<Rightarrow> dflt | Some v \<Rightarrow> v)"
| "py_get _ k dflt = Inl AttributeError"

text \<open>\<open>d[k]\<close> and \<open>d.get(k, dflt)\<close> on a value known to be a \<open>dict\<close>.\<close>

definition dict_item :: "dict \<Rightarrow> string \<Rightarrow> exn + json" where
  "dict_item d k = (case map_of d k of None \<Rightarrow> Inl KeyError | Some v \<Rightarrow> Inr v)"

definition dict_get :: "dict \<Rightarrow> string \<Rightarrow> json \<Rightarrow> json" where
  "dict_get d k dflt = (case map_of d k of None \<Rightarrow> dflt | Some v \<Rightarrow> v)"

text \<open>\<open>d.update(e)\<close> for two dicts: existing keys keep their place, new keys are appended.\<close>

definition dict_update :: "dict \<Rightarrow> dict \<Rightarrow> dict" where
  "dict_update d e = fold (\<lambda>(k, v). AList.update k v) e d"

text \<open>
  One element of a sequence given to \<open>update\<close>: it must itself be a sequence of length
  two, key first. Iterating a \<open>dict\<close> gives its keys. A key that is a \<open>list\<close> or a
  \<open>dict\<close> cannot be hashed. A key that is \<open>None\<close> or a number would make a \<open>dict\<close> that is
  no JSON object; the model has no such value and reports \<open>TypeError\<close> there too.
\<close>

fun update_pair :: "json \<Rightarrow> exn + (string \<times> json)" where
  "update_pair (JList [JStr k, v]) = Inr (k, v)"
| "update_pair (JList [k, v]) = Inl TypeError"
| "update_pair (JList xs) = Inl ValueError"
| "update_pair (JStr [a, b]) = Inr ([a], JStr [b])"
| "update_pair (JStr s) = Inl ValueError"
| "update_pair (JObj [(k1, v1), (k2, v2)]) = Inr (k1, JStr k2)"
| "update_pair (JObj d) = Inl ValueError"
| "update_pair _ = Inl TypeError"

fun update_pairs :: "dict \<Rightarrow> json list \<Rightarrow> exn + dict" where
  "update_pairs d [] = Inr d"
| "update_pairs d (x # xs) =
     (case update_pair x of
        Inl e \<Rightarrow> Inl e
      | Inr (k, v) \<Rightarrow> update_pairs (AList.update k v d) xs)"

text \<open>\<open>x.update(y)\<close> for any two values: \<open>x\<close> must be a \<open>dict\<close>, \<open>y\<close> a \<open>dict\<close> or an
  iterable of pairs (the characters of a non-empty string are no pairs).\<close>

fun py_update :: "json \<Rightarrow> json \<Rightarrow> exn + json" where
  "py_update (JObj d) (JObj e) = Inr (JObj (dict_update d e))"
| "py_update (JObj d) (JList xs) = map_sum id JObj (update_pairs d xs)"
| "py_update (JObj d) (JStr s) = (if s = [] then Inr (JObj d) else Inl ValueError)"
| "py_update (JObj d) _ = Inl TypeError"
| "py_update _ _ = Inl AttributeError"

text \<open>
  \<open>a == b\<close>: \<open>True\<close> and \<open>False\<close> equal 1 and 0, lists are equal element by element, dicts
  are equal as maps, whatever the order of their keys. \<open>canon\<close> gives every value the
  representative of its class: truth values become numbers and keys are sorted.
\<close>

fun canon :: "json \<Rightarrow> json" where
  "canon JNull = JNull"
| "canon (JBool b) = JInt (if b then 1 else 0)"
| "canon (JInt i) = JInt i"
| "canon (JStr s) = JStr s"
| "canon (JList xs) = JList (map canon xs)"
| "canon (JObj d) = JObj (sort_key fst (AList.clearjunk (map (\<lambda>(k, v). (k, canon v)) d)))"

definition py_eq :: "json \<Rightarrow> json \<Rightarrow> bool" where
  "py_eq a b = (canon a = canon b)"

text \<open>\<open>a <= b\<close> with an \<open>int\<close> on the right: \<open>bool\<close> is a subclass of \<open>int\<close>, every other
  class raises \<open>TypeError\<close>.\<close>

fun py_le_int :: "json \<Rightarrow> int \<Rightarrow> exn + bool" where
  "py_le_int (JInt i) m = Inr (i \<le> m)"
| "py_le_int (JBool b) m = Inr ((if b then 1 else 0) \<le> m)"
| "py_le_int _ m = Inl TypeError"

text \<open>\<open>a in b\<close> for two strings: \<open>a\<close> occurs in \<open>b\<close> as a contiguous substring.\<close>

fun str_contains :: "string \<Rightarrow> string \<Rightarrow> bool" where
  "str_contains a [] = (a = [])"
| "str_contains a (c # cs) = (take (length a) (c # cs) = a \<or> str_contains a cs)"

text \<open>\<open>x in c\<close>: membership in a list by \<open>==\<close>, in a dict by key (the key is hashed first),
  in a string by substring; nothing else is a container.\<close>

fun py_in :: "json \<Rightarrow> json \<Rightarrow> exn + bool" where
  "py_in x (JList ys) = Inr (list_ex (py_eq x) ys)"
| "py_in (JStr k) (JObj d) = Inr (map_of d k \<noteq> None)"
| "py_in (JList xs) (JObj d) = Inl TypeError"
| "py_in (JObj e) (JObj d) = Inl TypeError"
| "py_in x (JObj d) = Inr False"
| "py_in (JStr t) (JStr s) = Inr (str_contains t s)"
| "py_in x c = Inl TypeError"

text \<open>\<open>str(n)\<close> for a natural number.\<close>

fun str_nat :: "nat \<Rightarrow> string" where
  "str_nat n =
     (if n < 10 then [char_of (48 + n)]
      else str_nat (n div 10) @ [char_of (48 + n mod 10)])"

definition str_int :: "int \<Rightarrow> string" where
  "str_int i = (if i < 0 then CHR ''-'' # str_nat (nat (- i)) else str_nat (nat i))"

section \<open>The gateway, the file system and the configurator's state\<close>

text \<open>
  What is at a path: a file that holds JSON text or something \<open>load\<close> rejects (an empty
  file, for one), or a folder. It has a last-modified time; \<open>mtime_ms\<close> is
  \<open>int(os.path.getmtime(path) * 1000)\<close>. Paths are taken as they are written: two
  spellings of one place are two paths.
\<close>

datatype content = Text json | Unparsable | Folder

record stored_file =
  content :: content
  mtime_ms :: int

text \<open>
  The calls of methods of the gateway, of its clients and of the logging library, and what
  the configurator does to the outside world, in order: calls, files opened for writing and
  written, backups written, and error-level log records. Debug, info and warning records
  change nothing and are left out. \<open>Send_attributes k v\<close> is
  \<open>tb_client.client.send_attributes({k: v})\<close>.
\<close>

datatype call =
    Send_attributes json json
  | Init_grpc_service json
  | Close_connector json
  | Load_connectors json
  | Connect_with_connectors
  | Subscribe_to_required_topics
  | Init_statistics_service json
  | Init_device_filtering json
  | Init_remote_shell json
  | Update_gateway_config json
  | Dict_config json
  | Install_remote_log_handler
  | Client_disconnect nat
  | Client_stop nat
  | Client_connect nat

datatype event =
    Called call
  | Truncated string
  | Written string json
  | Backup_written string json
  | Log_error string
  | Log_exception exn

text \<open>
  The collaborators that are not part of the configurator: the configuration folder, the
  hash of a document's text (\<open>hash(str(x))\<close>), the storage classes by type name (a class
  returns its instance or raises), the client constructor, whether a client is connected
  at a time, and for every call whether it raises (given everything done so far), how long
  it takes, and which connectors the gateway runs after loading them.
\<close>

record env =
  config_path :: string
  hash_str :: "json \<Rightarrow> int"
  event_storage_types :: "json \<Rightarrow> (event list \<Rightarrow> json \<Rightarrow> exn + nat) option"
  new_client :: "event list \<Rightarrow> json \<Rightarrow> exn + nat"
  is_connected :: "nat \<Rightarrow> int \<Rightarrow> bool"
  call_raises :: "event list \<Rightarrow> call \<Rightarrow> exn option"
  call_cost_ms :: "event list \<Rightarrow> call \<Rightarrow> nat"
  loaded_connectors :: "event list \<Rightarrow> (json \<times> nat) list \<Rightarrow> (json \<times> nat) list"

text \<open>
  The configurator's fields and the gateway fields it reads and writes. The four keys of
  \<open>_config\<close> are optional, as the getters' \<open>.get(key, default)\<close> allow. Storage backends,
  clients and connectors are numbered objects.
\<close>

record state =
  thingsboard :: "dict option"
  storage :: "dict option"
  grpc :: "dict option"
  connectors :: "dict list option"
  in_process :: bool
  active_connectors :: json
  event_storage :: nat
  tb_client :: nat
  available_connectors :: "(json \<times> nat) list"
  files :: "string \<rightharpoonup> stored_file"
  clock_ms :: int
  trace :: "event list"

text \<open>
  A method either returns a value, raises an exception, or never returns; the first two
  leave a state behind. \<open>Hang\<close> is a loop that has used its fuel.
\<close>

datatype 'a result = Returned 'a state | Raised exn state | Hang

type_synonym 'a prog = "state \<Rightarrow> 'a result"

definition ret :: "'a \<Rightarrow> 'a prog" where
  "ret x st = Returned x st"

definition throw :: "exn \<Rightarrow> 'a prog" where
  "throw e st = Raised e st"

definition bnd :: "'a prog \<Rightarrow> ('a \<Rightarrow> 'b prog) \<Rightarrow> 'b prog" where
  "bnd m f st =
     (case m st of
        Returned x st' \<Rightarrow> f x st'
      | Raised e st' \<Rightarrow> Raised e st'
      | Hang \<Rightarrow> Hang)"

definition andthen :: "unit prog \<Rightarrow> 'b prog \<Rightarrow> 'b prog" where
  "andthen m n = bnd m (\<lambda>_. n)"

text \<open>\<open>try: m except Exception as e: h(e)\<close>.\<close>

definition try_except :: "'a prog \<Rightarrow> (exn \<Rightarrow> 'a prog) \<Rightarrow> 'a prog" where
  "try_except m h st =
     (case m st of
        Returned x st' \<Rightarrow> Returned x st'
      | Raised e st' \<Rightarrow> h e st'
      | Hang \<Rightarrow> Hang)"

definition lift_sum :: "exn + 'a \<Rightarrow> 'a prog" where
  "lift_sum r st = (case r of Inl e \<Rightarrow> Raised e st | Inr x \<Rightarrow> Returned x st)"

definition gets :: "(state \<Rightarrow> 'a) \<Rightarrow> 'a prog" where
  "gets f st = Returned (f st) st"

definition modify :: "(state \<Rightarrow> state) \<Rightarrow> unit prog" where
  "modify f st = Returned () (f st)"

definition emit :: "event \<Rightarrow> state \<Rightarrow> state" where
  "emit e st = st\<lparr>trace := trace st @ [e]\<rparr>"

text \<open>A call is recorded, takes its time, and returns or raises as the collaborator decides.\<close>

definition call :: "env \<Rightarrow> call \<Rightarrow> unit prog" where
  "call E c st =
     (let st' = st\<lparr>clock_ms := clock_ms st + int (call_cost_ms E (trace st) c),
                    trace := trace st @ [Called c]\<rparr>
      in case call_raises E (trace st) c of
           None \<Rightarrow> Returned () st'
         | Some e \<Rightarrow> Raised e st')"

text \<open>\<open>LOG.error(msg)\<close> and \<open>LOG.exception(e)\<close>.\<close>

definition log_error :: "string \<Rightarrow> unit prog" where
  "log_error msg = modify (emit (Log_error msg))"

definition log_exception :: "exn \<Rightarrow> unit prog" where
  "log_exception e = modify (emit (Log_exception e))"

text \<open>
  Files. \<open>open(path, 'w')\<close> empties the file at once; the text is written when the body of
  the \<open>with\<close> has computed it. The configuration folder is taken to be there and
  writable, and the files the handlers write in it to have a place: writing them never
  fails. \<open>load\<close> of a missing file or of a folder raises \<open>OSError\<close>, of a file that is no
  JSON \<open>ValueError\<close>.
\<close>

definition open_w :: "string \<Rightarrow> unit prog" where
  "open_w path =
     modify (\<lambda>st. st\<lparr>files := (files st)(path \<mapsto> \<lparr>content = Unparsable, mtime_ms = clock_ms st\<rparr>),
                     trace := trace st @ [Truncated path]\<rparr>)"

definition write_json :: "string \<Rightarrow> json \<Rightarrow> unit prog" where
  "write_json path j =
     modify (\<lambda>st. st\<lparr>files := (files st)(path \<mapsto> \<lparr>content = Text j, mtime_ms = clock_ms st\<rparr>),
                     trace := trace st @ [Written path j]\<rparr>)"

definition load_json :: "string \<Rightarrow> json prog" where
  "load_json path st =
     (case files st path of
        None \<Rightarrow> Raised OSError st
      | Some f \<Rightarrow>
          (case content f of
             Text j \<Rightarrow> Returned j st
           | Unparsable \<Rightarrow> Raised ValueError st
           | Folder \<Rightarrow> Raised OSError st))"

text \<open>
  \<open>int(os.path.getmtime(path) * 1000)\<close>, of a file or of a folder. Where nothing is, it
  raises \<open>OSError\<close>; a path with a NUL character is refused with \<open>ValueError\<close>. Nothing
  is at such a path, so the order of the two tests makes no difference.
\<close>

definition getmtime :: "state \<Rightarrow> string \<Rightarrow> exn + int" where
  "getmtime st path =
     (case files st path of
        Some f \<Rightarrow> Inr (mtime_ms f)
      | None \<Rightarrow> if CHR 0x00 \<in> set path then Inl ValueError else Inl OSError)"

text \<open>The folder a path lies in: the path up to its last separator.\<close>

definition folder_of :: "string \<Rightarrow> string" where
  "folder_of path = rev (drop 1 (dropWhile (\<lambda>c. c \<noteq> CHR ''/'') (rev path)))"

definition is_dir :: "state \<Rightarrow> string \<Rightarrow> bool" where
  "is_dir st path = (case files st path of Some f \<Rightarrow> content f = Folder | None \<Rightarrow> False)"

text \<open>\<open>os.mkdir(path)\<close> in the configuration folder, where nothing is at the path.\<close>

definition mkdir :: "string \<Rightarrow> unit prog" where
  "mkdir path st =
     (if CHR 0x00 \<in> set path then Raised ValueError st
      else Returned () (st\<lparr>files := (files st)(path \<mapsto>
                                \<lparr>content = Folder, mtime_ms = clock_ms st\<rparr>)\<rparr>))"

text \<open>
  \<open>open(path, 'w')\<close> of a file whose folder the configurator does not know to be there:
  it raises \<open>ValueError\<close> for a path with a NUL character, and \<open>OSError\<close> when the path's
  folder is missing or is no folder, or when the path is a folder itself.
\<close>

definition open_in_folder :: "string \<Rightarrow> unit prog" where
  "open_in_folder path st =
     (if CHR 0x00 \<in> set path then Raised ValueError st
      else if \<not> is_dir st (folder_of path) \<or> is_dir st path then Raised OSError st
      else Returned () st)"

text \<open>\<open>self._gateway.get_config_path() + file_path\<close>: only a \<open>str\<close> can be appended.\<close>

fun config_file :: "env \<Rightarrow> json \<Rightarrow> exn + string" where
  "config_file E (JStr p) = Inr (config_path E @ p)"
| "config_file E _ = Inl TypeError"

section \<open>Change detection\<close>

text \<open>
  \<open>_modifiable_static_attrs\<close>: the attributes whose file is fixed.
\<close>

definition modifiable_static_attrs :: "(string \<times> string) list" where
  "modifiable_static_attrs = [(''logs_configuration'', ''logs.json'')]"

text \<open>
  The first \<open>try\<close> of \<open>_is_modified\<close>:
  \<open>config.get('configuration') or self._modifiable_static_attrs.get(attr_name)\<close>, with
  \<open>None\<close> when the payload has no \<open>get\<close>. The result is the Python value of \<open>file_path\<close>;
  \<open>None\<close> is Python's \<open>None\<close>.
\<close>

definition resolve_file_path :: "string \<Rightarrow> json \<Rightarrow> json option" where
  "resolve_file_path attr_name config =
     (case py_get config ''configuration'' JNull of
        Inl _ \<Rightarrow> None
      | Inr v \<Rightarrow>
          if truthy v then Some v
          else map_option JStr (map_of modifiable_static_attrs attr_name))"

text \<open>
  \<open>_is_modified\<close>. The left operand of \<open><=\<close> is read first, then the file's time, then
  the comparison is made. Of what is raised on the way only \<open>OSError\<close> is caught.
\<close>

definition is_modified :: "env \<Rightarrow> state \<Rightarrow> string \<Rightarrow> json \<Rightarrow> exn + bool" where
  "is_modified E st attr_name config =
     (case resolve_file_path attr_name config of
        None \<Rightarrow> Inr True
      | Some fp \<Rightarrow>
          (case config_file E fp of
             Inl e \<Rightarrow> Inl e
           | Inr path \<Rightarrow>
               (case py_get config ''ts'' (JInt 0) of
                  Inl e \<Rightarrow> Inl e
                | Inr ts \<Rightarrow>
                    (case getmtime st path of
                       Inl e \<Rightarrow> if e = OSError then Inr True else Inl e
                     | Inr mtime \<Rightarrow>
                         (case py_le_int ts mtime of
                            Inl e \<Rightarrow> Inl e
                          | Inr le \<Rightarrow> Inr (\<not> le))))))"

section \<open>The dispatcher\<close>

text \<open>
  The keys of \<open>_handlers\<close> are regular expressions tried with \<open>fullmatch\<close>. Six are plain
  names, which match themselves only; the last, \<open>(?=\D*\d?).*\<close>, matches every string
  that \<open>.*\<close> matches, that is every string without a line feed.
\<close>

datatype pattern = Exact string | Any_line

fun fullmatch :: "pattern \<Rightarrow> string \<Rightarrow> bool" where
  "fullmatch (Exact n) s = (n = s)"
| "fullmatch Any_line s = (CHR 0x0A \<notin> set s)"

type_synonym handler = "json \<Rightarrow> unit prog"

text \<open>The inner loop over \<open>_handlers.items()\<close>: the first pattern that matches is called.\<close>

fun dispatch :: "(pattern \<times> handler) list \<Rightarrow> string \<Rightarrow> handler" where
  "dispatch [] attr_name request_config = ret ()"
| "dispatch ((name, func) # hs) attr_name request_config =
     (if fullmatch name attr_name then func request_config
      else dispatch hs attr_name request_config)"

text \<open>The loop over \<open>config.keys()\<close>; an exception ends it.\<close>

fun process_keys ::
  "env \<Rightarrow> (pattern \<times> handler) list \<Rightarrow> (string \<times> json) list \<Rightarrow> unit prog"
where
  "process_keys E hs [] st = Returned () st"
| "process_keys E hs ((attr_name, request_config) # rest) st =
     (if str_contains ''deleted'' attr_name then process_keys E hs rest st
      else
        (case is_modified E st attr_name request_config of
           Inl e \<Rightarrow> Raised e st
         | Inr False \<Rightarrow> process_keys E hs rest st
         | Inr True \<Rightarrow>
             (case dispatch hs attr_name request_config st of
                Returned u st' \<Rightarrow> process_keys E hs rest st'
              | Raised e st' \<Rightarrow> Raised e st'
              | Hang \<Rightarrow> Hang)))"

definition unknown_attribute :: string where
  "unknown_attribute = ''Unknown attribute update name''"

definition already_in_processing :: string where
  "already_in_processing = ''Remote configuration is already in processing''"

text \<open>
  \<open>process_config_request\<close>: \<open>KeyError\<close> and \<open>AttributeError\<close> are caught and logged, any
  other exception leaves the method; \<open>finally\<close> clears the flag on every path that
  returns or raises. \<open>config.keys()\<close> needs a \<open>dict\<close>.
\<close>

definition process_config_request ::
  "env \<Rightarrow> (pattern \<times> handler) list \<Rightarrow> json \<Rightarrow> unit prog"
where
  "process_config_request E hs config st =
     (if \<not> in_process st then
        (case (case config of
                 JObj kvs \<Rightarrow> process_keys E hs kvs (st\<lparr>in_process := True\<rparr>)
               | _ \<Rightarrow> Raised AttributeError (st\<lparr>in_process := True\<rparr>)) of
           Returned u st2 \<Rightarrow> Returned () (st2\<lparr>in_process := False\<rparr>)
         | Raised e st2 \<Rightarrow>
             if e = KeyError \<or> e = AttributeError
             then Returned () ((emit (Log_error unknown_attribute) st2)\<lparr>in_process := False\<rparr>)
             else Raised e (st2\<lparr>in_process := False\<rparr>)
         | Hang \<Rightarrow> Hang)
      else Returned () (emit (Log_error already_in_processing) st))"

section \<open>The configuration store and its file\<close>

text \<open>The getters \<open>general_configuration\<close>, \<open>storage_configuration\<close> and
  \<open>grpc_configuration\<close>: \<open>self._config.get(key, {})\<close>.\<close>

definition general_configuration :: "state \<Rightarrow> dict" where
  "general_configuration st = (case thingsboard st of None \<Rightarrow> [] | Some d \<Rightarrow> d)"

definition storage_configuration :: "state \<Rightarrow> dict" where
  "storage_configuration st = (case storage st of None \<Rightarrow> [] | Some d \<Rightarrow> d)"

definition grpc_configuration :: "state \<Rightarrow> dict" where
  "grpc_configuration st = (case grpc st of None \<Rightarrow> [] | Some d \<Rightarrow> d)"

text \<open>
  The getter \<open>connectors_configuration\<close> removes two keys from every entry of the stored
  list, in place, and returns the list (an empty one when the key is absent).
\<close>

definition strip_connector :: "dict \<Rightarrow> dict" where
  "strip_connector c = AList.delete ''config_file_path'' (AList.delete ''config_updated'' c)"

definition connectors_configuration :: "dict list prog" where
  "connectors_configuration st =
     (case connectors st of
        None \<Rightarrow> Returned [] st
      | Some cs \<Rightarrow> Returned (map strip_connector cs)
                     (st\<lparr>connectors := Some (map strip_connector cs)\<rparr>))"

text \<open>What the getter returns, and the state it leaves, in one piece each.\<close>

definition stored_connectors :: "state \<Rightarrow> dict list" where
  "stored_connectors st =
     (case connectors st of None \<Rightarrow> [] | Some cs \<Rightarrow> map strip_connector cs)"

definition stripped :: "state \<Rightarrow> state" where
  "stripped st = st\<lparr>connectors := map_option (map strip_connector) (connectors st)\<rparr>"

text \<open>The list comprehension of \<open>_get_general_config_in_local_format\<close>: \<open>type\<close>, \<open>name\<close>
  and \<open>configuration\<close> of every entry, \<open>KeyError\<close> at the first one missing.\<close>

fun local_connectors :: "dict list \<Rightarrow> exn + json list" where
  "local_connectors [] = Inr []"
| "local_connectors (c # cs) =
     (case dict_item c ''type'' of
        Inl e \<Rightarrow> Inl e
      | Inr t \<Rightarrow>
          (case dict_item c ''name'' of
             Inl e \<Rightarrow> Inl e
           | Inr n \<Rightarrow>
               (case dict_item c ''configuration'' of
                  Inl e \<Rightarrow> Inl e
                | Inr f \<Rightarrow>
                    (case local_connectors cs of
                       Inl e \<Rightarrow> Inl e
                     | Inr js \<Rightarrow>
                         Inr (JObj [(''type'', t), (''name'', n), (''configuration'', f)] # js)))))"

definition local_format :: "state \<Rightarrow> json list \<Rightarrow> json" where
  "local_format st cc =
     JObj [(''thingsboard'', JObj (general_configuration st)),
           (''storage'', JObj (storage_configuration st)),
           (''grpc'', JObj (grpc_configuration st)),
           (''connectors'', JList cc)]"

definition get_general_config_in_local_format :: "json prog" where
  "get_general_config_in_local_format =
     bnd connectors_configuration (\<lambda>cs.
     bnd (lift_sum (local_connectors cs)) (\<lambda>cc.
     gets (\<lambda>st. local_format st cc)))"

text \<open>
  \<open>with open(path + "tb_gateway.json", "w") as file:
  file.writelines(dumps(self._get_general_config_in_local_format()))\<close>, as five handlers
  have it: the file is opened, and emptied, before the configuration is collected.
\<close>

definition general_file :: "env \<Rightarrow> string" where
  "general_file E = config_path E @ ''tb_gateway.json''"

definition save_general_config :: "env \<Rightarrow> unit prog" where
  "save_general_config E =
     andthen (open_w (general_file E))
       (bnd get_general_config_in_local_format (write_json (general_file E)))"

text \<open>\<open>int(time())\<close>: the clock in whole seconds, rounded towards zero.\<close>

definition int_time :: "state \<Rightarrow> int" where
  "int_time st =
     (if clock_ms st < 0 then - ((- clock_ms st) div 1000) else clock_ms st div 1000)"

text \<open>
  \<open>create_configuration_file_backup\<close>: the folder \<open>backup\<close> is made in the
  configuration folder unless something is at its place, and the data goes to
  \<open>backup/<name>_backup_<seconds>\<close>. No other folder is made: for a name with a
  directory part the file can be opened only if \<open>backup\<close> has that folder already.
  Nothing can fail between the opening of the file and the writing of the data.
\<close>

definition backup_file_path :: "env \<Rightarrow> string \<Rightarrow> state \<Rightarrow> string" where
  "backup_file_path E config_file_name st =
     config_path E @ ''backup'' @ ''/'' @ config_file_name @ ''_backup_'' @ str_int (int_time st)"

definition create_configuration_file_backup :: "env \<Rightarrow> json \<Rightarrow> string \<Rightarrow> unit prog" where
  "create_configuration_file_backup E config_data config_file_name =
     bnd (gets files) (\<lambda>fs.
     andthen (if fs (config_path E @ ''backup'') = None then mkdir (config_path E @ ''backup'')
              else ret ())
    (bnd (gets (backup_file_path E config_file_name)) (\<lambda>path.
     andthen (open_in_folder path)
       (modify (\<lambda>st.
          st\<lparr>files := (files st)(path \<mapsto> \<lparr>content = Text config_data, mtime_ms = clock_ms st\<rparr>),
             trace := trace st @ [Backup_written path config_data]\<rparr>)))))"

definition send_attributes :: "env \<Rightarrow> string \<Rightarrow> json \<Rightarrow> unit prog" where
  "send_attributes E key v = call E (Send_attributes (JStr key) v)"

section \<open>The storage handler\<close>

definition storage_revert_message :: string where
  "storage_revert_message =
     ''Something went wrong with applying the new storage configuration. Reverting...''"

text \<open>The \<open>try\<close> body of \<open>_handle_storage_configuration_update\<close>: the class is looked up by
  \<open>config["type"]\<close> and called with the payload.\<close>

definition new_event_storage :: "env \<Rightarrow> json \<Rightarrow> nat prog" where
  "new_event_storage E config =
     bnd (lift_sum (py_getitem config ''type'')) (\<lambda>t.
       case event_storage_types E t of
         None \<Rightarrow> throw KeyError
       | Some storage_class \<Rightarrow> bnd (gets trace) (\<lambda>tr. lift_sum (storage_class tr config)))"

text \<open>The setter \<open>storage_configuration\<close>: \<open>self._config['storage'].update(config)\<close>.\<close>

definition set_storage_configuration :: "json \<Rightarrow> unit prog" where
  "set_storage_configuration config =
     bnd (gets storage) (\<lambda>s.
       case s of
         None \<Rightarrow> throw KeyError
       | Some d \<Rightarrow>
           bnd (lift_sum (py_update (JObj d) config)) (\<lambda>d'.
             case d' of
               JObj d'' \<Rightarrow> modify (\<lambda>st. st\<lparr>storage := Some d''\<rparr>)
             | _ \<Rightarrow> ret ()))"

definition handle_storage_configuration_update :: "env \<Rightarrow> handler" where
  "handle_storage_configuration_update E config =
     bnd (gets event_storage) (\<lambda>old_event_storage.
     bnd (try_except
            (bnd (new_event_storage E config) (\<lambda>s.
               andthen (modify (\<lambda>st. st\<lparr>event_storage := s\<rparr>)) (ret True)))
            (\<lambda>e. andthen (log_error storage_revert_message)
                  (andthen (log_exception e)
                  (andthen (modify (\<lambda>st. st\<lparr>event_storage := old_event_storage\<rparr>))
                    (ret False)))))
       (\<lambda>constructed.
          if constructed then
            andthen (set_storage_configuration config)
              (andthen (save_general_config E)
                (bnd (gets storage_configuration) (\<lambda>sc.
                   send_attributes E ''storage_configuration'' (JObj sc))))
          else ret ()))"

section \<open>The connector handler\<close>

text \<open>A \<open>str\<close>, where one is needed to build a path.\<close>

fun str_of :: "json \<Rightarrow> exn + string" where
  "str_of (JStr s) = Inr s"
| "str_of _ = Inl TypeError"

text \<open>Lists and dicts cannot be keys of a \<open>dict\<close>.\<close>

fun hashable :: "json \<Rightarrow> bool" where
  "hashable (JList xs) = False"
| "hashable (JObj d) = False"
| "hashable _ = True"

text \<open>\<open>self._gateway.available_connectors[name]\<close> and \<open>.pop(name)\<close>.\<close>

definition connector_instance :: "(json \<times> nat) list \<Rightarrow> json \<Rightarrow> exn + nat" where
  "connector_instance table name =
     (if \<not> hashable name then Inl TypeError
      else case find (\<lambda>(k, c). py_eq k name) table of
             None \<Rightarrow> Inl KeyError
           | Some (k, c) \<Rightarrow> Inr c)"

definition pop_connector :: "json \<Rightarrow> (json \<times> nat) list \<Rightarrow> (json \<times> nat) list" where
  "pop_connector name table = filter (\<lambda>(k, c). \<not> py_eq k name) table"

text \<open>
  \<open>filter(lambda item: item['name'] == config['name'], ...)\<close>, made a list: every entry is
  compared, \<open>item['name']\<close> read before \<open>config['name']\<close>.
\<close>

fun matching :: "dict list \<Rightarrow> dict \<Rightarrow> exn + bool list" where
  "matching [] config = Inr []"
| "matching (item # items) config =
     (case dict_item item ''name'' of
        Inl e \<Rightarrow> Inl e
      | Inr a \<Rightarrow>
          (case dict_item config ''name'' of
             Inl e \<Rightarrow> Inl e
           | Inr b \<Rightarrow>
               (case matching items config of
                  Inl e \<Rightarrow> Inl e
                | Inr ms \<Rightarrow> Inr (py_eq a b # ms))))"

text \<open>The place of \<open>found_connectors[0]\<close> in the list, if any entry was found.\<close>

fun first_true :: "bool list \<Rightarrow> nat option" where
  "first_true [] = None"
| "first_true (b # bs) = (if b then Some 0 else map_option Suc (first_true bs))"

text \<open>
  The summary entry built from the payload: \<open>name\<close>, \<open>type\<close> and \<open>configuration\<close>, then
  \<open>key\<close> and \<open>class\<close> when the payload has a true value for them.
\<close>

definition summary_entry :: "dict \<Rightarrow> json \<Rightarrow> exn + dict" where
  "summary_entry config config_file_name =
     (case dict_item config ''name'' of
        Inl e \<Rightarrow> Inl e
      | Inr n \<Rightarrow>
          (case dict_item config ''type'' of
             Inl e \<Rightarrow> Inl e
           | Inr t \<Rightarrow>
               Inr ([(''name'', n), (''type'', t), (''configuration'', config_file_name)]
                    @ (if truthy (dict_get config ''key'' JNull)
                       then [(''key'', dict_get config ''key'' JNull)] else [])
                    @ (if truthy (dict_get config ''class'' JNull)
                       then [(''class'', dict_get config ''class'' JNull)] else []))))"

text \<open>
  \<open>config['configurationJson'].update({'logLevel': config['logLevel'], 'name':
  config['name']})\<close>: the payload with its \<open>configurationJson\<close> changed in place.
\<close>

definition update_configuration_json :: "dict \<Rightarrow> exn + dict" where
  "update_configuration_json config =
     (case dict_item config ''configurationJson'' of
        Inl e \<Rightarrow> Inl e
      | Inr (JObj cj) \<Rightarrow>
          (case dict_item config ''logLevel'' of
             Inl e \<Rightarrow> Inl e
           | Inr l \<Rightarrow>
               (case dict_item config ''name'' of
                  Inl e \<Rightarrow> Inl e
                | Inr n \<Rightarrow>
                    Inr (AList.update ''configurationJson''
                          (JObj (dict_update cj [(''logLevel'', l), (''name'', n)])) config)))
      | Inr _ \<Rightarrow> Inl AttributeError)"

text \<open>The five comparisons that decide whether the summary entry changed, left to right,
  stopping at the first difference.\<close>

definition summary_differs :: "dict \<Rightarrow> dict \<Rightarrow> exn + bool" where
  "summary_differs found_connector config =
     (case dict_item config ''name'' of
        Inl e \<Rightarrow> Inl e
      | Inr n \<Rightarrow>
          if \<not> py_eq (dict_get found_connector ''name'' JNull) n then Inr True
          else
            (case dict_item config ''type'' of
               Inl e \<Rightarrow> Inl e
             | Inr t \<Rightarrow>
                 if \<not> py_eq (dict_get found_connector ''type'' JNull) t then Inr True
                 else if \<not> py_eq (dict_get found_connector ''class'' JNull)
                                 (dict_get config ''class'' JNull) then Inr True
                 else if \<not> py_eq (dict_get found_connector ''key'' JNull)
                                 (dict_get config ''key'' JNull) then Inr True
                 else
                   (case py_get (dict_get found_connector ''configurationJson'' (JObj []))
                           ''logLevel'' JNull of
                      Inl e \<Rightarrow> Inl e
                    | Inr l \<Rightarrow> Inr (\<not> py_eq l (dict_get config ''logLevel'' JNull)))))"

text \<open>\<open>load_connectors(self._get_general_config_in_local_format())\<close> and
  \<open>connect_with_connectors()\<close>, after which the gateway runs the connectors it could
  start.\<close>

definition load_connectors :: "env \<Rightarrow> unit prog" where
  "load_connectors E = bnd get_general_config_in_local_format (\<lambda>j. call E (Load_connectors j))"

definition connect_with_connectors :: "env \<Rightarrow> unit prog" where
  "connect_with_connectors E =
     andthen (call E Connect_with_connectors)
       (modify (\<lambda>st. st\<lparr>available_connectors :=
                          loaded_connectors E (trace st) (available_connectors st)\<rparr>))"

text \<open>\<open>self.connectors_configuration.append(entry)\<close>: lost when \<open>_config\<close> has no list.\<close>

definition append_connector :: "dict \<Rightarrow> unit prog" where
  "append_connector entry =
     bnd connectors_configuration (\<lambda>cs.
       modify (\<lambda>st. st\<lparr>connectors := map_option (\<lambda>cs. cs @ [entry]) (connectors st)\<rparr>))"

text \<open>The branch for a name no entry has. The result is the payload as the branch leaves
  it.\<close>

definition add_connector :: "env \<Rightarrow> dict \<Rightarrow> json \<Rightarrow> dict prog" where
  "add_connector E config config_file_name =
     bnd (lift_sum (summary_entry config config_file_name)) (\<lambda>connector_configuration.
     bnd (lift_sum (str_of config_file_name)) (\<lambda>name.
     andthen (open_w (config_path E @ name))
    (bnd (lift_sum (update_configuration_json config)) (\<lambda>config'.
     andthen (create_configuration_file_backup E (JObj config') name)
    (andthen (write_json (config_path E @ name) (dict_get config' ''configurationJson'' JNull))
    (andthen (append_connector connector_configuration)
    (andthen (save_general_config E)
    (andthen (load_connectors E)
    (andthen (connect_with_connectors E)
      (ret config'))))))))))"

text \<open>
  The content check of the branch for an existing entry: when the file exists, it is
  loaded and hashed, and backed up if the hash differs from the hash of the incoming
  \<open>configurationJson\<close>. The result is \<open>changed\<close>.
\<close>

definition backup_if_changed :: "env \<Rightarrow> dict \<Rightarrow> string \<Rightarrow> bool prog" where
  "backup_if_changed E config name =
     bnd (gets files) (\<lambda>fs.
       if fs (config_path E @ name) \<noteq> None then
         bnd (load_json (config_path E @ name)) (\<lambda>connector_config_data.
         bnd (lift_sum (dict_item config ''configurationJson'')) (\<lambda>cj.
           if hash_str E connector_config_data \<noteq> hash_str E cj then
             andthen (create_configuration_file_backup E connector_config_data name) (ret True)
           else ret False))
       else ret False)"

text \<open>\<open>found_connector.update(connector_configuration)\<close> on the entry at place \<open>i\<close>.\<close>

definition update_entry :: "nat \<Rightarrow> dict \<Rightarrow> unit prog" where
  "update_entry i entry =
     modify (\<lambda>st. st\<lparr>connectors :=
       map_option (\<lambda>cs. cs[i := dict_update (cs ! i) entry]) (connectors st)\<rparr>)"

text \<open>Closing and removing the running connector, then reloading all.\<close>

definition restart_connector :: "env \<Rightarrow> json \<Rightarrow> unit prog" where
  "restart_connector E name =
     bnd (gets available_connectors) (\<lambda>table.
     bnd (lift_sum (connector_instance table name)) (\<lambda>c.
     andthen (call E (Close_connector name))
    (andthen (modify (\<lambda>st. st\<lparr>available_connectors :=
                                 pop_connector name (available_connectors st)\<rparr>))
    (andthen (load_connectors E)
      (connect_with_connectors E)))))"

text \<open>
  The branch for an existing entry, found at place \<open>i\<close>, after the content check: the
  summary check, the entry's update, and, if anything changed, the file's rewrite and the
  connector's restart. The result is the payload as the branch leaves it.
\<close>

definition apply_change ::
  "env \<Rightarrow> nat \<Rightarrow> dict \<Rightarrow> dict \<Rightarrow> json \<Rightarrow> string \<Rightarrow> bool \<Rightarrow> dict prog"
where
  "apply_change E i found_connector config config_file_name name content_changed =
     bnd (lift_sum (summary_differs found_connector config)) (\<lambda>summary_changed.
     bnd (if summary_changed then
            bnd (lift_sum (summary_entry config config_file_name)) (\<lambda>entry.
              andthen (update_entry i entry) (ret entry))
          else ret found_connector) (\<lambda>connector_configuration.
       if content_changed \<or> summary_changed then
         andthen (open_w (config_path E @ name))
        (bnd (lift_sum (update_configuration_json config)) (\<lambda>config'.
         andthen (write_json (config_path E @ name)
                    (dict_get config' ''configurationJson'' JNull))
        (bnd (lift_sum (dict_item connector_configuration ''name'')) (\<lambda>n.
         andthen (restart_connector E n)
           (ret config')))))
       else ret config))"

text \<open>The whole branch for an existing entry.\<close>

definition change_connector :: "env \<Rightarrow> nat \<Rightarrow> dict \<Rightarrow> dict \<Rightarrow> json \<Rightarrow> dict prog" where
  "change_connector E i found_connector config config_file_name =
     bnd (lift_sum (str_of config_file_name)) (\<lambda>name.
     bnd (backup_if_changed E config name)
       (apply_change E i found_connector config config_file_name name))"

text \<open>\<open>send_attributes({config['name']: config})\<close>: the name must be there and be a key.\<close>

definition acknowledge :: "env \<Rightarrow> dict \<Rightarrow> unit prog" where
  "acknowledge E config =
     bnd (lift_sum (dict_item config ''name'')) (\<lambda>n.
       if hashable n then call E (Send_attributes n (JObj config))
       else throw TypeError)"

text \<open>
  \<open>_handle_connector_configuration_update\<close>. Whatever is raised inside is logged and the
  handler returns.
\<close>

definition handle_connector_configuration_update :: "env \<Rightarrow> handler" where
  "handle_connector_configuration_update E config =
     try_except
       (bnd (lift_sum (py_getitem config ''configuration'')) (\<lambda>config_file_name.
        case config of
          JObj d \<Rightarrow>
            bnd connectors_configuration (\<lambda>cs.
            bnd (lift_sum (matching cs d)) (\<lambda>found.
            bnd (case first_true found of
                   None \<Rightarrow> add_connector E d config_file_name
                 | Some i \<Rightarrow> change_connector E i (cs ! i) d config_file_name)
              (acknowledge E)))
        | _ \<Rightarrow> throw TypeError))
       log_exception"

section \<open>The connection protocol\<close>

text \<open>\<open>sleep(.1)\<close>.\<close>

definition sleep_100ms :: "state \<Rightarrow> state" where
  "sleep_100ms st = st\<lparr>clock_ms := clock_ms st + 100\<rparr>"

text \<open>
  The inner loop of \<open>_apply_connection_config\<close>,
  \<open>while time() * 1000 - apply_start >= 1000 and not connection_state\<close>: it is entered
  only once a second has passed since the start, and is left only when the client is
  connected. The result is \<open>connection_state\<close>. Each round uses one unit of fuel.
\<close>

fun poll :: "env \<Rightarrow> nat \<Rightarrow> int \<Rightarrow> nat \<Rightarrow> bool prog" where
  "poll E 0 apply_start client st = Hang"
| "poll E (Suc fuel) apply_start client st =
     (if clock_ms st - apply_start \<ge> 1000 then
        (if is_connected E client (clock_ms st) then Returned True (sleep_100ms st)
         else poll E fuel apply_start client (sleep_100ms st))
      else Returned False st)"

text \<open>The body of the \<open>for\<close> for one client; \<open>True\<close> stands for \<open>return True\<close>.\<close>

definition try_client :: "env \<Rightarrow> nat \<Rightarrow> int \<Rightarrow> nat \<Rightarrow> bool prog" where
  "try_client E fuel apply_start client =
     andthen (call E (Client_connect client))
       (bnd (poll E fuel apply_start client) (\<lambda>connection_state.
          if connection_state then
            andthen (modify (\<lambda>st. st\<lparr>tb_client := client\<rparr>))
              (andthen (call E Subscribe_to_required_topics) (ret True))
          else ret False))"

text \<open>\<open>while not connection_state: for client in (new_tb_client, old_tb_client): ...\<close>\<close>

fun connect_loop :: "env \<Rightarrow> nat \<Rightarrow> int \<Rightarrow> nat \<Rightarrow> nat \<Rightarrow> bool prog" where
  "connect_loop E 0 apply_start new_tb_client old_tb_client st = Hang"
| "connect_loop E (Suc fuel) apply_start new_tb_client old_tb_client st =
     bnd (try_client E fuel apply_start new_tb_client) (\<lambda>connected.
       if connected then ret True
       else bnd (try_client E fuel apply_start old_tb_client) (\<lambda>connected.
         if connected then ret True
         else connect_loop E fuel apply_start new_tb_client old_tb_client)) st"

definition revert_failed_message :: string where
  "revert_failed_message = ''Exception on reverting configuration occurred:''"

text \<open>\<open>_revert_connection\<close>: a client is rebuilt from the stored general configuration.\<close>

definition revert_connection :: "env \<Rightarrow> unit prog" where
  "revert_connection E =
     try_except
       (bnd (gets tb_client) (\<lambda>c.
        andthen (call E (Client_disconnect c))
       (andthen (call E (Client_stop c))
       (bnd (gets trace) (\<lambda>tr.
        bnd (gets general_configuration) (\<lambda>g.
        bnd (lift_sum (new_client E tr (JObj g))) (\<lambda>c'.
        andthen (modify (\<lambda>st. st\<lparr>tb_client := c'\<rparr>))
       (andthen (call E (Client_connect c'))
         (call E Subscribe_to_required_topics)))))))))
       (\<lambda>e. andthen (log_error revert_failed_message) (log_exception e))"

text \<open>\<open>_apply_connection_config\<close>. The revert is in the \<open>except\<close> clause and nowhere
  else.\<close>

definition apply_connection_config :: "env \<Rightarrow> nat \<Rightarrow> json \<Rightarrow> bool prog" where
  "apply_connection_config E fuel config =
     bnd (gets clock_ms) (\<lambda>apply_start.
     bnd (gets tb_client) (\<lambda>old_tb_client.
       try_except
         (andthen (call E (Client_disconnect old_tb_client))
           (bnd (gets trace) (\<lambda>tr.
            bnd (lift_sum (new_client E tr config)) (\<lambda>new_tb_client.
              connect_loop E fuel apply_start new_tb_client old_tb_client))))
         (\<lambda>e. andthen (log_exception e) (andthen (revert_connection E) (ret False)))))"

section \<open>The general configuration handler\<close>

text \<open>One disjunct \<open>a != b\<close> of an \<open>or\<close> chain: both sides are read, and the rest of the
  chain only if they are equal.\<close>

definition or_differs :: "exn + json \<Rightarrow> exn + json \<Rightarrow> exn + bool \<Rightarrow> exn + bool" where
  "or_differs a b rest =
     (case a of
        Inl e \<Rightarrow> Inl e
      | Inr x \<Rightarrow>
          (case b of
             Inl e \<Rightarrow> Inl e
           | Inr y \<Rightarrow> if \<not> py_eq x y then Inr True else rest))"

text \<open>The condition of step 1: host, port, security, provisioning or qos differ.\<close>

definition connection_changed :: "dict \<Rightarrow> dict \<Rightarrow> exn + bool" where
  "connection_changed config g =
     or_differs (dict_item config ''host'') (dict_item g ''host'')
    (or_differs (dict_item config ''port'') (dict_item g ''port'')
    (or_differs (dict_item config ''security'') (dict_item g ''security'')
    (or_differs (Inr (dict_get config ''provisioning'' (JObj [])))
                (Inr (dict_get g ''provisioning'' (JObj [])))
    (or_differs (dict_item config ''qos'') (dict_item g ''qos'')
      (Inr False)))))"

text \<open>
  Step 1. When the protocol fails, \<open>config.update(self.general_configuration)\<close>. The
  result is the payload and whether the update was made, after which the payload's
  \<open>statistics\<close> is the very object of the stored configuration, if that has one.
\<close>

definition connection_step :: "env \<Rightarrow> nat \<Rightarrow> dict \<Rightarrow> (dict \<times> bool) prog" where
  "connection_step E fuel config =
     bnd (gets general_configuration) (\<lambda>g.
     bnd (lift_sum (connection_changed config g)) (\<lambda>changed.
       if changed then
         bnd (apply_connection_config E fuel (JObj config)) (\<lambda>success.
           if \<not> success then
             bnd (gets general_configuration) (\<lambda>g'. ret (dict_update config g', True))
           else ret (config, False))
       else ret (config, False)))"

definition DEFAULT_STATISTICS :: json where
  "DEFAULT_STATISTICS =
     JObj [(''enable'', JBool True), (''statsSendPeriodInSeconds'', JInt 3600)]"

text \<open>\<open>_check_statistics_configuration_changes\<close>.\<close>

definition check_statistics_configuration_changes :: "env \<Rightarrow> json \<Rightarrow> bool prog" where
  "check_statistics_configuration_changes E config =
     bnd (gets general_configuration) (\<lambda>g.
     bnd (ret (dict_get g ''statistics'' DEFAULT_STATISTICS)) (\<lambda>gs.
     bnd (lift_sum
            (or_differs (py_getitem config ''enable'') (py_getitem gs ''enable'')
            (or_differs (py_getitem config ''statsSendPeriodInSeconds'')
                        (py_getitem gs ''statsSendPeriodInSeconds'')
              (Inr False)))) (\<lambda>differs.
       if differs then ret True
       else
         bnd (lift_sum (py_get gs ''configuration'' JNull)) (\<lambda>file_name.
         bnd (if truthy file_name then
                bnd (lift_sum (config_file E file_name)) load_json
              else ret (JList [])) (\<lambda>commands.
         bnd (lift_sum (py_get config ''commands'' (JList []))) (\<lambda>c.
           ret (\<not> py_eq c commands)))))))"

text \<open>A \<open>try\<close> whose outcome is inspected afterwards.\<close>

definition attempt :: "'a prog \<Rightarrow> (exn + 'a) prog" where
  "attempt m st =
     (case m st of
        Returned x st' \<Rightarrow> Returned (Inr x) st'
      | Raised e st' \<Rightarrow> Returned (Inl e) st'
      | Hang \<Rightarrow> Hang)"

definition statistics_revert_message :: string where
  "statistics_revert_message =
     ''Something went wrong with applying the new statistics configuration. Reverting...''"

text \<open>
  \<open>_apply_statistics_config\<close>, in three parts. First the commands are written to their
  file and \<open>config['configuration']\<close> is set; \<open>shared\<close> says that \<open>config\<close> is the stored
  statistics object itself, which then changes with it.
\<close>

definition write_statistics_commands :: "env \<Rightarrow> bool \<Rightarrow> json \<Rightarrow> json prog" where
  "write_statistics_commands E shared config =
     bnd (lift_sum (py_get config ''commands'' (JList []))) (\<lambda>commands.
       if truthy commands then
         bnd (gets general_configuration) (\<lambda>g.
         bnd (lift_sum (dict_item g ''statistics'')) (\<lambda>gs.
         bnd (lift_sum (py_get gs ''configuration'' (JStr ''statistics.json''))) (\<lambda>n.
         bnd (ret (if n = JNull then JStr ''statistics.json'' else n)) (\<lambda>file_name.
         bnd (lift_sum (config_file E file_name)) (\<lambda>path.
         andthen (open_w path)
        (andthen (write_json path commands)
        (bnd (lift_sum (py_update config (JObj [(''configuration'', file_name)]))) (\<lambda>config'.
         andthen (if shared then
                    modify (\<lambda>st. st\<lparr>thingsboard :=
                      map_option (AList.update ''statistics'' config') (thingsboard st)\<rparr>)
                  else ret ())
           (ret config')))))))))
       else ret config)"

text \<open>Then the service is started and the statistics stored.\<close>

definition install_statistics :: "env \<Rightarrow> json \<Rightarrow> unit prog" where
  "install_statistics E config =
     andthen (call E (Init_statistics_service config))
       (modify (\<lambda>st. st\<lparr>thingsboard :=
          map_option (AList.update ''statistics'' config) (thingsboard st)\<rparr>))"

text \<open>The \<open>except\<close> clause: the service is started again from the stored statistics.\<close>

definition restore_statistics :: "env \<Rightarrow> exn \<Rightarrow> unit prog" where
  "restore_statistics E e =
     andthen (log_error statistics_revert_message)
    (andthen (log_exception e)
    (bnd (gets general_configuration) (\<lambda>g.
       call E (Init_statistics_service (dict_get g ''statistics'' DEFAULT_STATISTICS)))))"

text \<open>The whole method: its result, and \<open>config\<close> as it leaves it.\<close>

definition apply_statistics_config :: "env \<Rightarrow> bool \<Rightarrow> json \<Rightarrow> (bool \<times> json) prog" where
  "apply_statistics_config E shared config =
     bnd (attempt (write_statistics_commands E shared config)) (\<lambda>r.
       case r of
         Inl e \<Rightarrow> andthen (restore_statistics E e) (ret (False, config))
       | Inr config' \<Rightarrow>
           try_except
             (andthen (install_statistics E config') (ret (True, config')))
             (\<lambda>e. andthen (restore_statistics E e) (ret (False, config'))))"

text \<open>\<open>config[key].update(self.general_configuration[key])\<close>, the revert of steps 2 to 4.\<close>

definition revert_field :: "string \<Rightarrow> dict \<Rightarrow> dict prog" where
  "revert_field key config =
     bnd (lift_sum (dict_item config key)) (\<lambda>c.
       case c of
         JObj d \<Rightarrow>
           bnd (gets general_configuration) (\<lambda>g.
           bnd (lift_sum (dict_item g key)) (\<lambda>gv.
           bnd (lift_sum (py_update c gv)) (\<lambda>c'.
             ret (AList.update key c' config))))
       | JList xs \<Rightarrow> throw AttributeError
       | _ \<Rightarrow> throw AttributeError)"

text \<open>Step 2. The statistics object is the payload's, or \<open>DEFAULT_STATISTICS\<close>.\<close>

definition statistics_step :: "env \<Rightarrow> bool \<Rightarrow> dict \<Rightarrow> dict prog" where
  "statistics_step E reverted config =
     bnd (gets general_configuration) (\<lambda>g.
     bnd (ret (reverted \<and> map_of g ''statistics'' \<noteq> None)) (\<lambda>shared.
     bnd (check_statistics_configuration_changes E
            (dict_get config ''statistics'' DEFAULT_STATISTICS)) (\<lambda>changed.
       if changed then
         bnd (apply_statistics_config E shared
                (dict_get config ''statistics'' DEFAULT_STATISTICS)) (\<lambda>(success, statistics).
         bnd (ret (if map_of config ''statistics'' \<noteq> None
                   then AList.update ''statistics'' statistics config else config)) (\<lambda>config'.
           if \<not> success then revert_field ''statistics'' config' else ret config'))
       else ret config)))"

definition device_filtering_revert_message :: string where
  "device_filtering_revert_message =
     ''Something went wrong with applying the new device filtering configuration. Reverting...''"

definition remote_shell_revert_message :: string where
  "remote_shell_revert_message =
     ''Something went wrong with applying the new Remote Shell configuration. Reverting...''"

text \<open>\<open>_apply_device_filtering_config\<close> and \<open>_apply_remote_shell_config\<close>.\<close>

definition apply_device_filtering_config :: "env \<Rightarrow> dict \<Rightarrow> bool prog" where
  "apply_device_filtering_config E config =
     try_except
       (andthen (call E (Init_device_filtering
                   (dict_get config ''deviceFiltering'' (JObj [(''enable'', JBool False)]))))
          (ret True))
       (\<lambda>e. andthen (log_error device_filtering_revert_message)
            (andthen (log_exception e)
            (bnd (gets general_configuration) (\<lambda>g.
             andthen (call E (Init_device_filtering
                        (dict_get g ''deviceFiltering'' (JObj [(''enable'', JBool False)]))))
               (ret False)))))"

definition apply_remote_shell_config :: "env \<Rightarrow> dict \<Rightarrow> bool prog" where
  "apply_remote_shell_config E config =
     try_except
       (andthen (call E (Init_remote_shell (dict_get config ''remoteShell'' JNull)))
          (ret True))
       (\<lambda>e. andthen (log_error remote_shell_revert_message)
            (andthen (log_exception e)
            (bnd (gets general_configuration) (\<lambda>g.
             andthen (call E (Init_remote_shell (dict_get g ''remoteShell'' JNull)))
               (ret False)))))"

text \<open>Steps 3 and 4.\<close>

definition device_filtering_step :: "env \<Rightarrow> dict \<Rightarrow> dict prog" where
  "device_filtering_step E config =
     bnd (gets general_configuration) (\<lambda>g.
       if \<not> py_eq (dict_get config ''deviceFiltering'' JNull)
                   (dict_get g ''deviceFiltering'' JNull) then
         bnd (apply_device_filtering_config E config) (\<lambda>success.
           if \<not> success then revert_field ''deviceFiltering'' config else ret config)
       else ret config)"

definition remote_shell_step :: "env \<Rightarrow> dict \<Rightarrow> dict prog" where
  "remote_shell_step E config =
     bnd (gets general_configuration) (\<lambda>g.
       if \<not> py_eq (dict_get config ''remoteShell'' JNull)
                   (dict_get g ''remoteShell'' JNull) then
         bnd (apply_remote_shell_config E config) (\<lambda>success.
           if \<not> success then revert_field ''remoteShell'' config else ret config)
       else ret config)"

text \<open>The setter \<open>general_configuration\<close>: \<open>self._config['thingsboard'].update(config)\<close>.\<close>

definition set_general_configuration :: "dict \<Rightarrow> unit prog" where
  "set_general_configuration config =
     bnd (gets thingsboard) (\<lambda>t.
       case t of
         None \<Rightarrow> throw KeyError
       | Some g \<Rightarrow> modify (\<lambda>st. st\<lparr>thingsboard := Some (dict_update g config)\<rparr>))"

text \<open>\<open>_cleanup\<close>: \<open>self.general_configuration['statistics'].pop('commands')\<close>, a \<open>pop\<close>
  without default. A list has a \<open>pop\<close> too, which wants a number.\<close>

definition cleanup :: "unit prog" where
  "cleanup =
     bnd (gets general_configuration) (\<lambda>g.
     bnd (lift_sum (dict_item g ''statistics'')) (\<lambda>s.
       case s of
         JObj d \<Rightarrow>
           (if map_of d ''commands'' = None then throw KeyError
            else modify (\<lambda>st. st\<lparr>thingsboard :=
                   map_option (AList.update ''statistics'' (JObj (AList.delete ''commands'' d)))
                     (thingsboard st)\<rparr>))
       | JList xs \<Rightarrow> throw TypeError
       | _ \<Rightarrow> throw AttributeError))"

text \<open>The end of the handler: other parameters, the store, the acknowledgement, the
  cleanup and the file.\<close>

definition save_general_configuration :: "env \<Rightarrow> dict \<Rightarrow> unit prog" where
  "save_general_configuration E config =
     andthen (call E (Update_gateway_config (JObj config)))
    (andthen (set_general_configuration config)
    (andthen (bnd (gets general_configuration) (\<lambda>g.
                send_attributes E ''general_configuration'' (JObj g)))
    (andthen cleanup
      (save_general_config E))))"

text \<open>\<open>_handle_general_configuration_update\<close>. \<open>config['host']\<close> is read first, which only
  a \<open>dict\<close> allows.\<close>

definition handle_general_configuration_update :: "env \<Rightarrow> nat \<Rightarrow> handler" where
  "handle_general_configuration_update E fuel config =
     (case config of
        JObj d \<Rightarrow>
          bnd (connection_step E fuel d) (\<lambda>(d1, reverted).
          bnd (statistics_step E reverted d1) (\<lambda>d2.
          bnd (device_filtering_step E d2) (\<lambda>d3.
          bnd (remote_shell_step E d3) (\<lambda>d4.
            save_general_configuration E d4))))
      | _ \<Rightarrow> throw TypeError)"

section \<open>The other handlers and the table\<close>

text \<open>\<open>for connector_name in available_connectors: available_connectors[connector_name].close()\<close>\<close>

fun close_each :: "env \<Rightarrow> json list \<Rightarrow> unit prog" where
  "close_each E [] = ret ()"
| "close_each E (n # ns) = andthen (call E (Close_connector n)) (close_each E ns)"

definition reload_connectors :: "env \<Rightarrow> unit prog" where
  "reload_connectors E =
     bnd (gets available_connectors) (\<lambda>table.
     andthen (close_each E (map fst table))
    (andthen (load_connectors E)
      (connect_with_connectors E)))"

definition grpc_revert_message :: string where
  "grpc_revert_message =
     ''Something went wrong with applying the new GRPC configuration. Reverting...''"

text \<open>The setter \<open>grpc_configuration\<close>: \<open>self._config.get('grpc', {}).update(config)\<close>, which
  updates a fresh dict when the key is absent.\<close>

definition set_grpc_configuration :: "json \<Rightarrow> unit prog" where
  "set_grpc_configuration config =
     bnd (gets grpc_configuration) (\<lambda>g.
     bnd (lift_sum (py_update (JObj g) config)) (\<lambda>g'.
       case g' of
         JObj d \<Rightarrow> modify (\<lambda>st. st\<lparr>grpc := map_option (\<lambda>_. d) (grpc st)\<rparr>)
       | _ \<Rightarrow> ret ()))"

text \<open>\<open>_handle_grpc_configuration_update\<close>.\<close>

definition handle_grpc_configuration_update :: "env \<Rightarrow> handler" where
  "handle_grpc_configuration_update E config =
     bnd (gets grpc_configuration) (\<lambda>g.
       if \<not> py_eq config (JObj g) then
         bnd (attempt (andthen (call E (Init_grpc_service config)) (reload_connectors E))) (\<lambda>r.
           case r of
             Inl e \<Rightarrow>
               andthen (log_error grpc_revert_message)
              (andthen (log_exception e)
              (bnd (gets grpc_configuration) (\<lambda>g.
               andthen (call E (Init_grpc_service (JObj g)))
                 (reload_connectors E))))
           | Inr u \<Rightarrow>
               andthen (set_grpc_configuration config)
              (andthen (save_general_config E)
              (bnd (gets grpc_configuration) (\<lambda>g.
                 send_attributes E ''grpc_configuration'' (JObj g)))))
       else ret ())"

definition logs_wrong_message :: string where
  "logs_wrong_message = ''Remote logging configuration is wrong!''"

text \<open>\<open>_handle_logs_configuration_update\<close>.\<close>

definition handle_logs_configuration_update :: "env \<Rightarrow> handler" where
  "handle_logs_configuration_update E config =
     try_except
       (andthen (call E (Dict_config config))
       (andthen (call E Install_remote_log_handler)
       (andthen (open_w (config_path E @ ''logs.json''))
       (andthen (write_json (config_path E @ ''logs.json'') config)
         (send_attributes E ''logs_configuration'' config)))))
       (\<lambda>e. andthen (log_error logs_wrong_message) (log_exception e))"

text \<open>The first loop of \<open>_handle_active_connectors_update\<close>; the result is
  \<open>for_deletion\<close>.\<close>

fun close_absent :: "env \<Rightarrow> json \<Rightarrow> json list \<Rightarrow> json list prog" where
  "close_absent E config [] = ret []"
| "close_absent E config (n # ns) =
     bnd (lift_sum (py_in n config)) (\<lambda>present.
       if present then close_absent E config ns
       else
         bnd (try_except (andthen (call E (Close_connector n)) (ret True))
                (\<lambda>e. andthen (log_exception e) (ret False))) (\<lambda>closed.
         bnd (close_absent E config ns) (\<lambda>rest.
           ret (if closed then n # rest else rest))))"

text \<open>\<open>_delete_connectors_from_config\<close>: the entries whose name is in the list are kept.\<close>

fun keep_listed :: "dict list \<Rightarrow> json \<Rightarrow> exn + dict list" where
  "keep_listed [] connector_list = Inr []"
| "keep_listed (c # cs) connector_list =
     (case dict_item c ''name'' of
        Inl e \<Rightarrow> Inl e
      | Inr n \<Rightarrow>
          (case py_in n connector_list of
             Inl e \<Rightarrow> Inl e
           | Inr listed \<Rightarrow>
               (case keep_listed cs connector_list of
                  Inl e \<Rightarrow> Inl e
                | Inr ks \<Rightarrow> Inr (if listed then c # ks else ks))))"

definition delete_connectors_from_config :: "json \<Rightarrow> unit prog" where
  "delete_connectors_from_config connector_list =
     bnd connectors_configuration (\<lambda>cs.
     bnd (lift_sum (keep_listed cs connector_list)) (\<lambda>kept.
       modify (\<lambda>st. st\<lparr>connectors := Some kept\<rparr>)))"

text \<open>\<open>_handle_active_connectors_update\<close>.\<close>

definition handle_active_connectors_update :: "env \<Rightarrow> handler" where
  "handle_active_connectors_update E config =
     bnd (gets available_connectors) (\<lambda>table.
     bnd (close_absent E config (map fst table)) (\<lambda>for_deletion.
     andthen
       (if for_deletion \<noteq> [] then
          andthen (modify (\<lambda>st. st\<lparr>available_connectors :=
                              fold pop_connector for_deletion (available_connectors st)\<rparr>))
         (andthen (delete_connectors_from_config config)
         (andthen (save_general_config E)
           (modify (\<lambda>st. st\<lparr>active_connectors := config\<rparr>))))
        else ret ())
       (send_attributes E ''active_connectors'' config)))"

text \<open>\<open>_handle_remote_logging_level_update\<close>.\<close>

definition handle_remote_logging_level_update :: "env \<Rightarrow> handler" where
  "handle_remote_logging_level_update E config =
     send_attributes E ''RemoteLoggingLevel'' config"

text \<open>\<open>_handlers\<close>, in the order of the dict.\<close>

definition handlers :: "env \<Rightarrow> nat \<Rightarrow> (pattern \<times> handler) list" where
  "handlers E fuel =
     [(Exact ''general_configuration'', handle_general_configuration_update E fuel),
      (Exact ''storage_configuration'', handle_storage_configuration_update E),
      (Exact ''grpc_configuration'', handle_grpc_configuration_update E),
      (Exact ''logs_configuration'', handle_logs_configuration_update E),
      (Exact ''active_connectors'', handle_active_connectors_update E),
      (Exact ''RemoteLoggingLevel'', handle_remote_logging_level_update E),
      (Any_line, handle_connector_configuration_update E)]"

section \<open>Names of connectors\<close>

text \<open>
  The names in the connector list, each by the representative of its \<open>==\<close> class, so
  that two entries share a name exactly when their representatives are the same; an
  entry without \<open>name\<close> has none. \<open>apply_connector_updates\<close> is a sequence of connector
  updates, one call of the handler after the other.
\<close>

definition entry_name :: "dict \<Rightarrow> json list" where
  "entry_name c = (case map_of c ''name'' of None \<Rightarrow> [] | Some a \<Rightarrow> [canon a])"

definition connector_names :: "state \<Rightarrow> json list" where
  "connector_names st =
     concat (map entry_name (case connectors st of None \<Rightarrow> [] | Some cs \<Rightarrow> cs))"

definition unique_names :: "state \<Rightarrow> bool" where
  "unique_names st = distinct (connector_names st)"

fun apply_connector_updates :: "env \<Rightarrow> json list \<Rightarrow> unit prog" where
  "apply_connector_updates E [] = ret ()"
| "apply_connector_updates E (config # configs) =
     andthen (handle_connector_configuration_update E config) (apply_connector_updates E configs)"

section \<open>What a method leaves unchanged\<close>

text \<open>
  \<open>frame R m\<close>: from every state, \<open>m\<close> returns or raises, and the state it leaves is related
  to the one it started from by \<open>R\<close>.
\<close>

definition after :: "'a result \<Rightarrow> state option" where
  "after r = (case r of Returned x st \<Rightarrow> Some st | Raised e st \<Rightarrow> Some st | Hang \<Rightarrow> None)"

definition frame :: "(state \<Rightarrow> state \<Rightarrow> bool) \<Rightarrow> 'a prog \<Rightarrow> bool" where
  "frame R m = (\<forall>st. \<exists>st'. after (m st) = Some st' \<and> R st st')"

text \<open>The backups among some events; \<open>quietly\<close>: the trace has grown, by no backup.\<close>

fun is_backup :: "event \<Rightarrow> bool" where
  "is_backup (Backup_written p j) = True"
| "is_backup _ = False"

definition backups :: "event list \<Rightarrow> event list" where
  "backups evs = filter is_backup evs"

definition quietly :: "state \<Rightarrow> state \<Rightarrow> bool" where
  "quietly st st' = (\<exists>evs. trace st' = trace st @ evs \<and> backups evs = [])"

text \<open>\<open>only_at path\<close>: whatever is at another path than \<open>path\<close> is as it was.\<close>

definition only_at :: "string \<Rightarrow> state \<Rightarrow> state \<Rightarrow> bool" where
  "only_at path st st' = (files st' = (files st)(path := files st' path))"

text \<open>\<open>steady\<close>: a connector list that the getter has been through is the same after.\<close>

definition steady :: "state \<Rightarrow> state \<Rightarrow> bool" where
  "steady st st' = (stripped st = st \<longrightarrow> connectors st' = connectors st)"

text \<open>\<open>appended e\<close> and \<open>updated i e\<close>: such a list is the same after, or has the entry \<open>e\<close>
  at its end, or has \<open>e\<close> merged into its entry at place \<open>i\<close>.\<close>

definition appended :: "dict \<Rightarrow> state \<Rightarrow> state \<Rightarrow> bool" where
  "appended e st st' =
     (stripped st = st \<longrightarrow>
        connectors st' = connectors st
        \<or> connectors st' = map_option (\<lambda>cs. cs @ [e]) (connectors st))"

definition updated :: "nat \<Rightarrow> dict \<Rightarrow> state \<Rightarrow> state \<Rightarrow> bool" where
  "updated i e st st' =
     (stripped st = st \<longrightarrow>
        connectors st' = connectors st
        \<or> connectors st' = map_option (\<lambda>cs. cs[i := dict_update (cs ! i) e]) (connectors st))"

text \<open>\<open>grown\<close>: the names are the same after, or one name that was not among them has been
  added at the end.\<close>

definition grown :: "state \<Rightarrow> state \<Rightarrow> bool" where
  "grown st st' =
     (connector_names st' = connector_names st
      \<or> (\<exists>n. connector_names st' = connector_names st @ [n] \<and> n \<notin> set (connector_names st)))"

text \<open>What a method returned, if it did.\<close>

definition returned :: "'a result \<Rightarrow> 'a option" where
  "returned r = (case r of Returned x st \<Rightarrow> Some x | Raised e st \<Rightarrow> None | Hang \<Rightarrow> None)"

section \<open>Concrete collaborators and stores\<close>

text \<open>
  A gateway whose collaborators never fail: the folder is \<open>/etc/tb/\<close>, one storage class
  \<open>memory\<close>, every client connects at once, and the hash of a document's text is
  injective on the documents used below.
\<close>

fun json_rank :: "json \<Rightarrow> int" where
  "json_rank JNull = 0"
| "json_rank (JBool b) = (if b then 1 else 2)"
| "json_rank (JInt i) = 3 + 2 * abs i"
| "json_rank (JStr s) = 4 + 2 * int (length s)"
| "json_rank (JList xs) = 5 + 7 * sum_list (map json_rank xs)"
| "json_rank (JObj d) = 6 + 11 * sum_list (map (\<lambda>(k, v). int (length k) + json_rank v) d)"

definition quiet_env :: env where
  "quiet_env =
     \<lparr>config_path = ''/etc/tb/'',
      hash_str = json_rank,
      event_storage_types =
        (\<lambda>t. if t = JStr ''memory'' then Some (\<lambda>tr c. Inr 1) else None),
      new_client = (\<lambda>tr c. Inr 1),
      is_connected = (\<lambda>c t. True),
      call_raises = (\<lambda>tr c. None),
      call_cost_ms = (\<lambda>tr c. 0),
      loaded_connectors = (\<lambda>tr table. table)\<rparr>"

definition empty_state :: state where
  "empty_state =
     \<lparr>thingsboard = None, storage = None, grpc = None, connectors = None,
      in_process = False, active_connectors = JList [],
      event_storage = 0, tb_client = 0, available_connectors = [],
      files = Map.empty, clock_ms = 0, trace = []\<rparr>"

text \<open>
  A running gateway: one MQTT connector with its file, the general configuration without
  statistics commands, a memory storage.
\<close>

definition gateway_state :: state where
  "gateway_state =
     \<lparr>thingsboard = Some
        [(''host'', JStr ''tb.example''), (''port'', JInt 1883), (''qos'', JInt 1),
         (''security'', JObj [(''accessToken'', JStr ''T'')]),
         (''statistics'', JObj [(''enable'', JBool True),
                               (''statsSendPeriodInSeconds'', JInt 3600)]),
         (''minPackSendDelayMS'', JInt 200)],
      storage = Some [(''type'', JStr ''memory''), (''read_records_count'', JInt 10)],
      grpc = Some [(''enabled'', JBool False)],
      connectors = Some
        [[(''name'', JStr ''Mqtt''), (''type'', JStr ''mqtt''),
          (''configuration'', JStr ''mqtt.json'')]],
      in_process = False, active_connectors = JList [],
      event_storage = 0, tb_client = 0, available_connectors = [(JStr ''Mqtt'', 7)],
      files = [''/etc/tb/mqtt.json'' \<mapsto>
        \<lparr>content = Text (JObj [(''broker'', JStr ''b.example'')]),
         mtime_ms = 1700000000000\<rparr>],
      clock_ms = 1700000100000, trace = []\<rparr>"

text \<open>A store whose only file is \<open>logs.json\<close>, last modified at 1700000000000 ms.\<close>

definition logs_state :: state where
  "logs_state =
     empty_state\<lparr>files := [''/etc/tb/logs.json'' \<mapsto>
        \<lparr>content = Text (JObj []), mtime_ms = 1700000000000\<rparr>]\<rparr>"

text \<open>The same store with \<open>logs.json\<close> last modified one second before 1970.\<close>

definition ancient_logs_state :: state where
  "ancient_logs_state =
     empty_state\<lparr>files := [''/etc/tb/logs.json'' \<mapsto>
        \<lparr>content = Text (JObj []), mtime_ms = - 1000\<rparr>]\<rparr>"

text \<open>Two payloads for the connector \<open>Mqtt\<close>: one with a new broker and a log level, one
  that repeats what is on disk.\<close>

definition mqtt_update :: dict where
  "mqtt_update =
     [(''name'', JStr ''Mqtt''), (''type'', JStr ''mqtt''), (''configuration'', JStr ''mqtt.json''),
      (''logLevel'', JStr ''INFO''),
      (''configurationJson'', JObj [(''broker'', JStr ''broker2.example'')])]"




text \<open>A payload for a connector the gateway does not have yet.\<close>

definition modbus_new :: dict where
  "modbus_new =
     [(''name'', JStr ''Modbus''), (''type'', JStr ''modbus''),
      (''configuration'', JStr ''modbus.json''), (''logLevel'', JStr ''INFO''),
      (''configurationJson'', JObj [(''master'', JObj [])])]"

text \<open>
  Two gateways whose calls take 700 ms each: on the first no client ever reports to be
  connected (the server cannot be reached), on the second every client does.
\<close>

definition deaf_env :: env where
  "deaf_env = quiet_env\<lparr>is_connected := \<lambda>c t. False, call_cost_ms := \<lambda>tr c. 700\<rparr>"

definition slow_env :: env where
  "slow_env = quiet_env\<lparr>call_cost_ms := \<lambda>tr c. 700\<rparr>"

text \<open>A gateway on which no client can be built.\<close>

definition broken_env :: env where
  "broken_env = quiet_env\<lparr>new_client := \<lambda>tr c. Inl OSError\<rparr>"

text \<open>
  Two payloads for \<open>general_configuration\<close>: one that moves the gateway to another host
  and asks for a send delay of 500 ms, one that repeats the stored settings, its
  statistics without \<open>commands\<close>, and a third that has the \<open>commands\<close>.
\<close>

definition host_change :: dict where
  "host_change =
     [(''host'', JStr ''other.example''), (''port'', JInt 1883), (''qos'', JInt 1),
      (''security'', JObj [(''accessToken'', JStr ''T'')]),
      (''minPackSendDelayMS'', JInt 500)]"

definition same_settings :: dict where
  "same_settings =
     [(''host'', JStr ''tb.example''), (''port'', JInt 1883), (''qos'', JInt 1),
      (''security'', JObj [(''accessToken'', JStr ''T'')]),
      (''statistics'', JObj [(''enable'', JBool True),
                            (''statsSendPeriodInSeconds'', JInt 3600)]),
      (''minPackSendDelayMS'', JInt 500)]"

definition same_settings_with_commands :: dict where
  "same_settings_with_commands =
     [(''host'', JStr ''tb.example''), (''port'', JInt 1883), (''qos'', JInt 1),
      (''security'', JObj [(''accessToken'', JStr ''T'')]),
      (''statistics'', JObj [(''enable'', JBool True),
                            (''statsSendPeriodInSeconds'', JInt 3600),
                            (''commands'', JList [])]),
      (''minPackSendDelayMS'', JInt 500)]"

section \<open>Lemmas on the store and its file\<close>

lemmas prog_defs = bnd_def andthen_def ret_def throw_def try_except_def lift_sum_def gets_def
  modify_def log_error_def log_exception_def emit_def

lemma connectors_configuration_eq:
  "connectors_configuration st = Returned (stored_connectors st) (stripped st)"
  by (cases "connectors st")
    (simp_all add: connectors_configuration_def stored_connectors_def stripped_def)

lemma local_format_ok:
  assumes "local_connectors (stored_connectors st) = Inr cc"
  shows "get_general_config_in_local_format st = Returned (local_format st cc) (stripped st)"
  using assms
  by (simp add: get_general_config_in_local_format_def prog_defs connectors_configuration_eq
      local_format_def general_configuration_def storage_configuration_def
      grpc_configuration_def stripped_def)

lemma stored_connectors_files_trace [simp]:
  "stored_connectors (st\<lparr>files := f, trace := t\<rparr>) = stored_connectors st"
  by (simp add: stored_connectors_def)

lemma save_general_config_ok:
  assumes "local_connectors (stored_connectors st) = Inr cc"
  shows "save_general_config E st =
    Returned () (st\<lparr>connectors := map_option (map strip_connector) (connectors st),
       files := (files st)(general_file E \<mapsto>
                  \<lparr>content = Text (local_format st cc), mtime_ms = clock_ms st\<rparr>),
       trace := trace st @ [Truncated (general_file E),
                            Written (general_file E) (local_format st cc)]\<rparr>)"
proof -
  let ?st1 = "st\<lparr>files := (files st)(general_file E \<mapsto>
                          \<lparr>content = Unparsable, mtime_ms = clock_ms st\<rparr>),
                trace := trace st @ [Truncated (general_file E)]\<rparr>"
  have o: "open_w (general_file E) st = Returned () ?st1"
    by (simp add: open_w_def prog_defs)
  have "local_connectors (stored_connectors ?st1) = Inr cc"
    using assms by simp
  from local_format_ok [OF this]
  have g: "get_general_config_in_local_format ?st1
             = Returned (local_format ?st1 cc) (stripped ?st1)" .
  have l: "local_format ?st1 cc = local_format st cc"
    by (simp add: local_format_def general_configuration_def storage_configuration_def
      grpc_configuration_def)
  show ?thesis
    by (simp add: save_general_config_def andthen_def bnd_def o g l write_json_def modify_def
        stripped_def)
qed

lemma set_storage_configuration_ok:
  assumes "storage st = Some sd"
  shows "set_storage_configuration (JObj d) st
           = Returned () (st\<lparr>storage := Some (dict_update sd d)\<rparr>)"
  using assms by (simp add: set_storage_configuration_def prog_defs)

lemma new_event_storage_cases:
  "(\<exists>e. new_event_storage E config st = Raised e st)
   \<or> (\<exists>s d. new_event_storage E config st = Returned s st \<and> config = JObj d)"
  by (cases config)
    (auto simp: new_event_storage_def prog_defs split: option.splits sum.splits)

lemma storage_update_failure:
  assumes "new_event_storage E config st = Raised e st"
  shows "handle_storage_configuration_update E config st =
        Returned () (st\<lparr>trace := trace st @
           [Log_error storage_revert_message, Log_exception e]\<rparr>)"
  using assms by (simp add: handle_storage_configuration_update_def prog_defs)

lemma storage_update_success:
  assumes n: "new_event_storage E (JObj d) st = Returned s st"
    and sd: "storage st = Some sd"
    and cc: "local_connectors (stored_connectors st) = Inr cc"
  shows "(let sd' = dict_update sd d;
             j = local_format (st\<lparr>storage := Some sd'\<rparr>) cc;
             tr = trace st @ [Truncated (general_file E), Written (general_file E) j];
             ack = Send_attributes (JStr ''storage_configuration'') (JObj sd');
             st' = st\<lparr>event_storage := s, storage := Some sd',
                      connectors := map_option (map strip_connector) (connectors st),
                      files := (files st)(general_file E \<mapsto>
                                 \<lparr>content = Text j, mtime_ms = clock_ms st\<rparr>),
                      clock_ms := clock_ms st + int (call_cost_ms E tr ack),
                      trace := tr @ [Called ack]\<rparr>
         in handle_storage_configuration_update E (JObj d) st =
              (case call_raises E tr ack of
                 None \<Rightarrow> Returned () st' | Some e \<Rightarrow> Raised e st'))"
proof -
  let ?st1 = "st\<lparr>event_storage := s\<rparr>"
  let ?st2 = "st\<lparr>event_storage := s, storage := Some (dict_update sd d)\<rparr>"
  have 1: "set_storage_configuration (JObj d) ?st1 = Returned () ?st2"
    using set_storage_configuration_ok [of ?st1 sd d] sd by simp
  have "local_connectors (stored_connectors ?st2) = Inr cc"
    using cc by (simp add: stored_connectors_def)
  note 2 = save_general_config_ok [OF this, of E]
  have l: "local_format ?st2 cc = local_format (st\<lparr>storage := Some (dict_update sd d)\<rparr>) cc"
    by (simp add: local_format_def general_configuration_def storage_configuration_def
        grpc_configuration_def)
  show ?thesis
    by (simp add: handle_storage_configuration_update_def bnd_def andthen_def try_except_def
        n gets_def modify_def ret_def 1 2 l send_attributes_def call_def Let_def
        storage_configuration_def split: option.splits)
qed

section \<open>Lemmas on frames\<close>

lemma frameI: "(\<And>st. \<exists>st'. after (m st) = Some st' \<and> R st st') \<Longrightarrow> frame R m"
  by (simp add: frame_def)

lemma frameD: "frame R m \<Longrightarrow> \<exists>st'. after (m st) = Some st' \<and> R st st'"
  by (simp add: frame_def)

lemma frame_ret: "reflp R \<Longrightarrow> frame R (ret x)"
  by (simp add: frame_def ret_def after_def reflp_def)

lemma frame_throw: "reflp R \<Longrightarrow> frame R (throw e)"
  by (simp add: frame_def throw_def after_def reflp_def)

lemma frame_lift_sum: "reflp R \<Longrightarrow> frame R (lift_sum r)"
  by (cases r) (simp_all add: frame_def lift_sum_def after_def reflp_def)

lemma frame_gets: "reflp R \<Longrightarrow> frame R (gets f)"
  by (simp add: frame_def gets_def after_def reflp_def)

lemma frame_bnd:
  assumes t: "transp R" and m: "frame R m" and f: "\<And>x. frame R (f x)"
  shows "frame R (bnd m f)"
proof (rule frameI)
  fix st
  from frameD [OF m, of st] obtain st1 where 1: "after (m st) = Some st1" and r1: "R st st1"
    by blast
  show "\<exists>st'. after (bnd m f st) = Some st' \<and> R st st'"
  proof (cases "m st")
    case (Returned x s)
    with 1 have s: "s = st1" by (simp add: after_def)
    from frameD [OF f, of x st1] obtain st2 where 2: "after (f x st1) = Some st2" and r2: "R st1 st2"
      by blast
    from t r1 r2 have "R st st2" by (rule transpD)
    with Returned s 2 show ?thesis by (auto simp: bnd_def)
  next
    case (Raised e s)
    with 1 r1 show ?thesis by (auto simp: bnd_def after_def)
  next
    case Hang
    with 1 show ?thesis by (simp add: after_def)
  qed
qed

lemma frame_andthen:
  "transp R \<Longrightarrow> frame R m \<Longrightarrow> frame R n \<Longrightarrow> frame R (andthen m n)"
  by (simp add: andthen_def frame_bnd)

lemma frame_try_except:
  assumes t: "transp R" and m: "frame R m" and h: "\<And>e. frame R (h e)"
  shows "frame R (try_except m h)"
proof (rule frameI)
  fix st
  from frameD [OF m, of st] obtain st1 where 1: "after (m st) = Some st1" and r1: "R st st1"
    by blast
  show "\<exists>st'. after (try_except m h st) = Some st' \<and> R st st'"
  proof (cases "m st")
    case (Returned x s)
    with 1 r1 show ?thesis by (auto simp: try_except_def after_def)
  next
    case (Raised e s)
    with 1 have s: "s = st1" by (simp add: after_def)
    from frameD [OF h, of e st1] obtain st2 where 2: "after (h e st1) = Some st2" and r2: "R st1 st2"
      by blast
    from t r1 r2 have "R st st2" by (rule transpD)
    with Raised s 2 show ?thesis by (auto simp: try_except_def)
  next
    case Hang
    with 1 show ?thesis by (simp add: after_def)
  qed
qed

lemma frame_modify: "(\<And>st. R st (f st)) \<Longrightarrow> frame R (modify f)"
  by (simp add: frame_def modify_def after_def)

lemma frame_if: "frame R m \<Longrightarrow> frame R n \<Longrightarrow> frame R (if b then m else n)"
  by simp

lemma frame_call: "(\<And>st t c'. R st (st\<lparr>clock_ms := t, trace := trace st @ [Called c']\<rparr>)) \<Longrightarrow> frame R (call E c)"
  by (auto simp: frame_def call_def after_def Let_def split: option.splits)


lemma frame_compose:
  assumes m: "frame K m" and f: "\<And>x. frame S (f x)"
    and c: "\<And>a b c. K a b \<Longrightarrow> S b c \<Longrightarrow> G a c" and k: "\<And>a b. K a b \<Longrightarrow> G a b"
  shows "frame G (bnd m f)"
proof (rule frameI)
  fix st
  from frameD [OF m, of st] obtain st1 where 1: "after (m st) = Some st1" and r1: "K st st1"
    by blast
  show "\<exists>st'. after (bnd m f st) = Some st' \<and> G st st'"
  proof (cases "m st")
    case (Returned x s)
    with 1 have s: "s = st1" by (simp add: after_def)
    from frameD [OF f, of x st1] obtain st2 where 2: "after (f x st1) = Some st2" and r2: "S st1 st2"
      by blast
    from r1 r2 have "G st st2" by (rule c)
    with Returned s 2 show ?thesis by (auto simp: bnd_def)
  next
    case (Raised e s)
    with 1 k [OF r1] show ?thesis by (auto simp: bnd_def after_def)
  next
    case Hang
    with 1 show ?thesis by (simp add: after_def)
  qed
qed

lemma quietly_refl: "reflp quietly"
  by (simp add: reflp_def quietly_def backups_def)

lemma quietly_trans: "transp quietly"
  by (auto simp: transp_def quietly_def backups_def)

lemma quietlyI: "trace st' = trace st @ evs \<Longrightarrow> backups evs = [] \<Longrightarrow> quietly st st'"
  by (auto simp: quietly_def)

lemma steady_refl: "reflp steady"
  by (simp add: reflp_def steady_def)

lemma stripped_iff: "stripped st = st \<longleftrightarrow> map_option (map strip_connector) (connectors st) = connectors st"
proof
  assume "stripped st = st"
  then have "connectors (stripped st) = connectors st" by simp
  then show "map_option (map strip_connector) (connectors st) = connectors st"
    by (simp add: stripped_def)
next
  assume "map_option (map strip_connector) (connectors st) = connectors st"
  then show "stripped st = st" by (simp add: stripped_def)
qed

lemma steady_trans: "transp steady"
  by (auto simp: transp_def steady_def stripped_iff)

named_theorems quiet_intros
named_theorems steady_intros

lemmas [quiet_intros] =
  frame_ret [OF quietly_refl] frame_throw [OF quietly_refl] frame_lift_sum [OF quietly_refl]
  frame_gets [OF quietly_refl] frame_bnd [OF quietly_trans] frame_andthen [OF quietly_trans]
  frame_try_except [OF quietly_trans] frame_if

lemmas [steady_intros] =
  frame_ret [OF steady_refl] frame_throw [OF steady_refl] frame_lift_sum [OF steady_refl]
  frame_gets [OF steady_refl] frame_bnd [OF steady_trans] frame_andthen [OF steady_trans]
  frame_try_except [OF steady_trans] frame_if

lemma quiet_call [quiet_intros]: "frame quietly (call E c)"
  by (rule frame_call) (simp add: quietly_def backups_def)

lemma steady_call [steady_intros]: "frame steady (call E c)"
  by (rule frame_call) (simp add: steady_def)

lemma quiet_log_exception [quiet_intros]: "frame quietly (log_exception e)"
  unfolding log_exception_def by (rule frame_modify) (simp add: quietly_def backups_def emit_def)

lemma steady_log_exception [steady_intros]: "frame steady (log_exception e)"
  unfolding log_exception_def by (rule frame_modify) (simp add: steady_def emit_def)

lemma quiet_open_w [quiet_intros]: "frame quietly (open_w p)"
  unfolding open_w_def by (rule frame_modify) (simp add: quietly_def backups_def)

lemma steady_open_w [steady_intros]: "frame steady (open_w p)"
  unfolding open_w_def by (rule frame_modify) (simp add: steady_def)

lemma quiet_write_json [quiet_intros]: "frame quietly (write_json p j)"
  unfolding write_json_def by (rule frame_modify) (simp add: quietly_def backups_def)

lemma steady_write_json [steady_intros]: "frame steady (write_json p j)"
  unfolding write_json_def by (rule frame_modify) (simp add: steady_def)

lemma steady_mkdir [steady_intros]: "frame steady (mkdir p)"
  by (simp add: frame_def mkdir_def after_def steady_def)

lemma steady_open_in_folder [steady_intros]: "frame steady (open_in_folder p)"
  by (simp add: frame_def open_in_folder_def after_def steady_def)

lemma steady_backup [steady_intros]: "frame steady (create_configuration_file_backup E j n)"
  unfolding create_configuration_file_backup_def
  by (intro steady_intros frame_modify) (simp add: steady_def)

lemma quiet_load_json [quiet_intros]: "frame quietly (load_json p)"
  by (auto simp: frame_def load_json_def after_def quietly_def backups_def
      split: option.splits content.splits)

lemma steady_load_json [steady_intros]: "frame steady (load_json p)"
  by (auto simp: frame_def load_json_def after_def steady_def
      split: option.splits content.splits)

lemma quiet_connectors_configuration [quiet_intros]: "frame quietly connectors_configuration"
  by (simp add: frame_def connectors_configuration_eq after_def quietly_def backups_def stripped_def)

lemma steady_connectors_configuration [steady_intros]: "frame steady connectors_configuration"
  by (simp add: frame_def connectors_configuration_eq after_def steady_def stripped_iff)
    (simp add: stripped_def)

lemma quiet_local_format [quiet_intros]: "frame quietly get_general_config_in_local_format"
  unfolding get_general_config_in_local_format_def by (intro quiet_intros)

lemma steady_local_format [steady_intros]: "frame steady get_general_config_in_local_format"
  unfolding get_general_config_in_local_format_def by (intro steady_intros)

lemma quiet_save [quiet_intros]: "frame quietly (save_general_config E)"
  unfolding save_general_config_def by (intro quiet_intros)

lemma steady_save [steady_intros]: "frame steady (save_general_config E)"
  unfolding save_general_config_def by (intro steady_intros)

lemma quiet_load_connectors [quiet_intros]: "frame quietly (load_connectors E)"
  unfolding load_connectors_def by (intro quiet_intros)

lemma steady_load_connectors [steady_intros]: "frame steady (load_connectors E)"
  unfolding load_connectors_def by (intro steady_intros)

lemma quiet_connect [quiet_intros]: "frame quietly (connect_with_connectors E)"
  unfolding connect_with_connectors_def
  by (intro quiet_intros frame_modify) (simp add: quietly_def backups_def)

lemma steady_connect [steady_intros]: "frame steady (connect_with_connectors E)"
  unfolding connect_with_connectors_def
  by (intro steady_intros frame_modify) (simp add: steady_def)

lemma quiet_restart [quiet_intros]: "frame quietly (restart_connector E n)"
  unfolding restart_connector_def
  by (intro quiet_intros frame_modify) (simp add: quietly_def backups_def)

lemma steady_restart [steady_intros]: "frame steady (restart_connector E n)"
  unfolding restart_connector_def
  by (intro steady_intros frame_modify) (simp add: steady_def)

lemma quiet_append [quiet_intros]: "frame quietly (append_connector e)"
  unfolding append_connector_def
  by (intro quiet_intros frame_modify) (simp add: quietly_def backups_def)

lemma quiet_update_entry [quiet_intros]: "frame quietly (update_entry i e)"
  unfolding update_entry_def
  by (intro quiet_intros frame_modify) (simp add: quietly_def backups_def)

lemma steady_backup_if_changed [steady_intros]: "frame steady (backup_if_changed E d n)"
  unfolding backup_if_changed_def by (intro steady_intros)

lemma only_at_refl: "reflp (only_at p)"
  by (simp add: reflp_def only_at_def)

lemma only_at_trans: "transp (only_at p)"
  unfolding transp_def only_at_def
proof (intro allI impI)
  fix a b c
  assume 1: "files b = (files a)(p := files b p)" and 2: "files c = (files b)(p := files c p)"
  show "files c = (files a)(p := files c p)"
    by (subst 2, subst 1) simp
qed

named_theorems file_intros

lemmas [file_intros] =
  frame_ret [OF only_at_refl] frame_throw [OF only_at_refl] frame_lift_sum [OF only_at_refl]
  frame_gets [OF only_at_refl] frame_bnd [OF only_at_trans] frame_andthen [OF only_at_trans]
  frame_try_except [OF only_at_trans] frame_if

lemma file_call [file_intros]: "frame (only_at p) (call E c)"
  by (rule frame_call) (simp add: only_at_def)

lemma file_log_exception [file_intros]: "frame (only_at p) (log_exception e)"
  unfolding log_exception_def by (rule frame_modify) (simp add: only_at_def emit_def)

lemma file_open_w [file_intros]: "frame (only_at p) (open_w p)"
  unfolding open_w_def by (rule frame_modify) (simp add: only_at_def)

lemma file_write_json [file_intros]: "frame (only_at p) (write_json p j)"
  unfolding write_json_def by (rule frame_modify) (simp add: only_at_def)

lemma file_connectors_configuration [file_intros]: "frame (only_at p) connectors_configuration"
  by (simp add: frame_def connectors_configuration_eq after_def only_at_def stripped_def)

lemma file_local_format [file_intros]: "frame (only_at p) get_general_config_in_local_format"
  unfolding get_general_config_in_local_format_def by (intro file_intros)

lemma file_load_connectors [file_intros]: "frame (only_at p) (load_connectors E)"
  unfolding load_connectors_def by (intro file_intros)

lemma file_connect [file_intros]: "frame (only_at p) (connect_with_connectors E)"
  unfolding connect_with_connectors_def
  by (intro file_intros frame_modify) (simp add: only_at_def)

lemma file_restart [file_intros]: "frame (only_at p) (restart_connector E n)"
  unfolding restart_connector_def
  by (intro file_intros frame_modify) (simp add: only_at_def)

lemma file_update_entry [file_intros]: "frame (only_at p) (update_entry i e)"
  unfolding update_entry_def
  by (intro file_intros frame_modify) (simp add: only_at_def)


section \<open>Lemmas on connector entries\<close>

lemma keys_strip_connector:
  "fst ` set (strip_connector c) = fst ` set c - {''config_updated'', ''config_file_path''}"
  by (auto simp: strip_connector_def AList.delete_eq image_iff)

lemma strip_connector_idI:
  "''config_updated'' \<notin> fst ` set c \<Longrightarrow> ''config_file_path'' \<notin> fst ` set c
     \<Longrightarrow> strip_connector c = c"
  by (auto simp: strip_connector_def AList.delete_eq filter_id_conv image_iff)

lemma strip_connector_idD:
  assumes "strip_connector c = c"
  shows "''config_updated'' \<notin> fst ` set c \<and> ''config_file_path'' \<notin> fst ` set c"
proof -
  have "fst ` set c = fst ` set c - {''config_updated'', ''config_file_path''}"
    using keys_strip_connector [of c] assms by simp
  then show ?thesis by blast
qed

lemma strip_connector_idem [simp]: "strip_connector (strip_connector c) = strip_connector c"
  by (rule strip_connector_idI) (simp_all add: keys_strip_connector)

lemma stripped_idem [simp]: "stripped (stripped st) = stripped st"
  by (cases "connectors st") (simp_all add: stripped_def)

lemma entry_name_strip [simp]: "entry_name (strip_connector c) = entry_name c"
  by (simp add: entry_name_def strip_connector_def AList.delete_conv')

lemma connector_names_stripped [simp]: "connector_names (stripped st) = connector_names st"
  by (cases "connectors st") (simp_all add: connector_names_def stripped_def comp_def)

lemma keys_dict_update: "fst ` set (dict_update d e) = fst ` set d \<union> fst ` set e"
  unfolding dict_update_def
proof (induction e arbitrary: d)
  case Nil
  show ?case by simp
next
  case (Cons p e)
  obtain k v where p: "p = (k, v)" by (cases p)
  show ?case by (simp add: p Cons AList.dom_update)
qed

lemma map_of_dict_update: "map_of (dict_update d e) = map_of d ++ map_of (rev e)"
  unfolding dict_update_def
proof (induction e arbitrary: d)
  case Nil
  show ?case by simp
next
  case (Cons p e)
  obtain k v where p: "p = (k, v)" by (cases p)
  show ?case
    by (auto simp: p Cons AList.update_conv' map_add_def fun_eq_iff split: option.splits)
qed


lemma matching_none:
  assumes "matching cs d = Inr found" and "first_true found = None"
    and "dict_item d ''name'' = Inr n"
  shows "canon n \<notin> set (concat (map entry_name cs))"
  using assms
proof (induction cs arbitrary: found)
  case Nil
  show ?case by simp
next
  case (Cons c cs)
  then show ?case
    by (auto simp: entry_name_def dict_item_def py_eq_def
        split: option.splits sum.splits if_splits) blast
qed

lemma matching_some:
  assumes "matching cs d = Inr found" and "first_true found = Some i"
  shows "i < length cs \<and> (\<exists>a n. map_of (cs ! i) ''name'' = Some a
           \<and> map_of d ''name'' = Some n \<and> canon a = canon n)"
  using assms
proof (induction cs arbitrary: found i)
  case Nil
  then show ?case by simp
next
  case (Cons c cs)
  then show ?case
    by (cases i) (auto simp: dict_item_def py_eq_def
        split: option.splits sum.splits if_splits)
qed

lemma summary_entry_keys:
  assumes "summary_entry d f = Inr e"
  shows "strip_connector e = e" and "map_of (dict_update c e) ''name'' = map_of d ''name''"
    and "map_of e ''name'' = map_of d ''name''"
  using assms
  by (auto simp: summary_entry_def dict_item_def map_of_dict_update
      intro!: strip_connector_idI split: option.splits sum.splits if_splits)


lemma frame_try_compose:
  assumes m: "frame K m" and f: "\<And>x. frame S (h x)"
    and c: "\<And>a b c. K a b \<Longrightarrow> S b c \<Longrightarrow> G a c" and k: "\<And>a b. K a b \<Longrightarrow> G a b"
  shows "frame G (try_except m h)"
proof (rule frameI)
  fix st
  from frameD [OF m, of st] obtain st1 where 1: "after (m st) = Some st1" and r1: "K st st1"
    by blast
  show "\<exists>st'. after (try_except m h st) = Some st' \<and> G st st'"
  proof (cases "m st")
    case (Returned x s)
    with 1 k [OF r1] show ?thesis by (auto simp: try_except_def after_def)
  next
    case (Raised e s)
    with 1 have s: "s = st1" by (simp add: after_def)
    from frameD [OF f, of e st1] obtain st2 where 2: "after (h e st1) = Some st2" and r2: "S st1 st2"
      by blast
    from r1 r2 have "G st st2" by (rule c)
    with Raised s 2 show ?thesis by (auto simp: try_except_def)
  next
    case Hang
    with 1 show ?thesis by (simp add: after_def)
  qed
qed

lemma steady_appended: "steady a b \<Longrightarrow> appended e a b"
  by (simp add: steady_def appended_def)

lemma steady_then_appended: "steady a b \<Longrightarrow> appended e b c \<Longrightarrow> appended e a c"
  by (auto simp: steady_def appended_def stripped_iff)

lemma stripped_append:
  assumes "strip_connector e = e" and "stripped a = a"
    and "connectors b = map_option (\<lambda>cs. cs @ [e]) (connectors a)"
  shows "stripped b = b"
  using assms by (cases "connectors a") (auto simp: stripped_iff)

lemma appended_then_steady:
  assumes e: "strip_connector e = e" and ab: "appended e a b" and bc: "steady b c"
  shows "appended e a c"
  unfolding appended_def
proof
  assume a: "stripped a = a"
  with ab consider "connectors b = connectors a"
    | "connectors b = map_option (\<lambda>cs. cs @ [e]) (connectors a)"
    by (auto simp: appended_def)
  then show "connectors c = connectors a
      \<or> connectors c = map_option (\<lambda>cs. cs @ [e]) (connectors a)"
  proof cases
    case 1
    with a have "stripped b = b" by (simp add: stripped_iff)
    with bc 1 show ?thesis by (simp add: steady_def)
  next
    case 2
    from stripped_append [OF e a 2] bc 2 show ?thesis by (simp add: steady_def)
  qed
qed

lemma steady_updated: "steady a b \<Longrightarrow> updated i e a b"
  by (simp add: steady_def updated_def)

lemma steady_then_updated: "steady a b \<Longrightarrow> updated i e b c \<Longrightarrow> updated i e a c"
  by (auto simp: steady_def updated_def stripped_iff)

lemma strip_dict_update:
  assumes "strip_connector c = c" and "strip_connector e = e"
  shows "strip_connector (dict_update c e) = dict_update c e"
  using strip_connector_idD [OF assms(1)] strip_connector_idD [OF assms(2)]
  by (intro strip_connector_idI) (simp_all add: keys_dict_update)

lemma stripped_update:
  assumes e: "strip_connector e = e" and a: "stripped a = a"
    and b: "connectors b = map_option (\<lambda>cs. cs[i := dict_update (cs ! i) e]) (connectors a)"
  shows "stripped b = b"
proof (cases "connectors a")
  case None
  with b show ?thesis by (simp add: stripped_iff)
next
  case (Some cs)
  with a have cs: "map strip_connector cs = cs" by (simp add: stripped_iff)
  show ?thesis
  proof (cases "i < length cs")
    case True
    from cs have "strip_connector (cs ! i) = cs ! i"
      using True by (metis nth_map)
    from strip_dict_update [OF this e] cs Some b show ?thesis
      by (simp add: stripped_iff map_update)
  next
    case False
    with cs Some b show ?thesis by (simp add: stripped_iff list_update_beyond not_less)
  qed
qed

lemma updated_then_steady:
  assumes e: "strip_connector e = e" and ab: "updated i e a b" and bc: "steady b c"
  shows "updated i e a c"
  unfolding updated_def
proof
  assume a: "stripped a = a"
  with ab consider "connectors b = connectors a"
    | "connectors b = map_option (\<lambda>cs. cs[i := dict_update (cs ! i) e]) (connectors a)"
    by (auto simp: updated_def)
  then show "connectors c = connectors a
      \<or> connectors c = map_option (\<lambda>cs. cs[i := dict_update (cs ! i) e]) (connectors a)"
  proof cases
    case 1
    with a have "stripped b = b" by (simp add: stripped_iff)
    with bc 1 show ?thesis by (simp add: steady_def)
  next
    case 2
    from stripped_update [OF e a 2] bc 2 show ?thesis by (simp add: steady_def)
  qed
qed

lemma frame_append_connector: "frame (appended e) (append_connector e)"
  by (auto simp: frame_def append_connector_def bnd_def connectors_configuration_eq modify_def
      after_def appended_def)

lemma frame_update_entry: "frame (updated i e) (update_entry i e)"
  by (simp add: frame_def update_entry_def modify_def after_def updated_def)

lemma bnd_lift_Inr [simp]: "bnd (lift_sum (Inr x)) f = f x"
  by (rule ext) (simp add: bnd_def lift_sum_def)

lemma bnd_lift_Inl [simp]: "bnd (lift_sum (Inl e)) f = throw e"
  by (rule ext) (simp add: bnd_def lift_sum_def throw_def)

lemma steady_acknowledge: "frame steady (acknowledge E d)"
  unfolding acknowledge_def by (intro steady_intros)

lemma add_connector_steady:
  assumes "summary_entry d fname = Inl x"
  shows "frame steady (add_connector E d fname)"
  using assms by (simp add: add_connector_def) (intro steady_intros)

lemma add_connector_appended:
  assumes e: "summary_entry d fname = Inr e"
  shows "frame (appended e) (add_connector E d fname)"
proof -
  note pre = frame_compose [where K = steady and S = "appended e" and G = "appended e",
      OF _ _ steady_then_appended steady_appended]
  note app = frame_compose [where K = "appended e" and S = steady and G = "appended e",
      OF frame_append_connector _ appended_then_steady [OF summary_entry_keys(1) [OF e]]]
  show ?thesis
    unfolding add_connector_def andthen_def
    apply (simp add: e)
    apply (rule pre, intro steady_intros)
    apply (rule pre, intro steady_intros)
    apply (rule pre, intro steady_intros)
    apply (rule pre, intro steady_intros)
    apply (rule pre, intro steady_intros)
    apply (rule app)
      apply (intro steady_intros [unfolded andthen_def])
     apply assumption+
    done
qed


section \<open>Change detection: what it reports\<close>


text \<open>The error is none of those \<open>process_config_request\<close> catches: the request raises it.\<close>

lemma nul_path_ends_request:
  "process_config_request quiet_env hs
     (JObj [(''Mqtt'', JObj [(''configuration'', JStr (''mqtt'' @ [CHR 0x00])),
                             (''ts'', JInt 5)])]) logs_state
   = Raised ValueError logs_state"
  by (simp add: process_config_request_def is_modified_def resolve_file_path_def getmtime_def
      logs_state_def empty_state_def quiet_env_def)



text \<open>The comparison is with the payload's own timestamp: the same payload stamped after
  the file's time is modified.\<close>

lemma newer_payload_is_modified:
  "is_modified quiet_env logs_state ''logs_configuration''
     (JObj [(''ts'', JInt 1700000000001)]) = Inr True
   \<and> is_modified quiet_env logs_state ''logs_configuration''
     (JObj [(''ts'', JInt 1700000000000)]) = Inr False"
  by (simp add: is_modified_def resolve_file_path_def modifiable_static_attrs_def getmtime_def
      logs_state_def empty_state_def quiet_env_def)

lemma missing_ts_unmodified:
  assumes "resolve_file_path attr_name (JObj d) = Some (JStr p)"
    and "map_of d ''ts'' = None"
    and "files st (config_path E @ p) = Some f"
    and "0 \<le> mtime_ms f"
  shows "is_modified E st attr_name (JObj d) = Inr False"
  using assms by (simp add: is_modified_def getmtime_def)

text \<open>
  C10, as stated: a payload of a file-backed attribute without \<open>ts\<close> is reported unmodified
  whenever the file exists. It fails for a file whose last-modified time lies before 1970:
  0 is then greater than the file's time and the payload is reported modified.
\<close>

theorem missing_ts_counterexample:
  "resolve_file_path ''logs_configuration'' (JObj [(''version'', JInt 1)])
     = Some (JStr ''logs.json'')
   \<and> files ancient_logs_state (config_path quiet_env @ ''logs.json'') \<noteq> None
   \<and> is_modified quiet_env ancient_logs_state ''logs_configuration''
        (JObj [(''version'', JInt 1)]) = Inr True"
  by (simp add: is_modified_def resolve_file_path_def modifiable_static_attrs_def getmtime_def
      ancient_logs_state_def empty_state_def quiet_env_def)

text \<open>
  C10, amended: when the payload of a file-backed attribute is a dict without \<open>ts\<close>, the
  file exists and its last-modified time is not before 1970, \<open>_is_modified\<close> returns
  \<open>False\<close>, the loop goes on to the next key without calling a handler, and a request
  made of this key alone returns with the state as it was.
\<close>

theorem missing_ts_skipped:
  assumes "resolve_file_path attr_name (JObj d) = Some (JStr p)"
    and "map_of d ''ts'' = None"
    and "files st (config_path E @ p) = Some f"
    and "0 \<le> mtime_ms f"
  shows "is_modified E st attr_name (JObj d) = Inr False
    \<and> process_keys E hs ((attr_name, JObj d) # rest) st = process_keys E hs rest st
    \<and> (\<not> in_process st \<longrightarrow>
          process_config_request E hs (JObj [(attr_name, JObj d)]) st = Returned () st)"
proof -
  have a: "is_modified E st attr_name (JObj d) = Inr False"
    by (rule missing_ts_unmodified [OF assms])
  have "files (st\<lparr>in_process := True\<rparr>) (config_path E @ p) = Some f"
    using assms(3) by simp
  from missing_ts_unmodified [OF assms(1,2) this assms(4)]
  have b: "is_modified E (st\<lparr>in_process := True\<rparr>) attr_name (JObj d) = Inr False" .
  from a b show ?thesis
    by (simp add: process_config_request_def)
qed

text \<open>With \<open>logs.json\<close> on disk, a \<open>logs_configuration\<close> payload without \<open>ts\<close> never reaches
  a handler, here one that would raise.\<close>

theorem missing_ts_skipped_witness:
  "process_config_request quiet_env [(Any_line, \<lambda>c. throw RuntimeError)]
     (JObj [(''logs_configuration'', JObj [(''version'', JInt 1)])]) logs_state
   = Returned () logs_state"
proof -
  have 1: "resolve_file_path ''logs_configuration'' (JObj [(''version'', JInt 1)])
             = Some (JStr ''logs.json'')"
    by (simp add: resolve_file_path_def modifiable_static_attrs_def)
  have 2: "map_of [(''version'', JInt 1)] ''ts'' = None"
    by simp
  have 3: "files logs_state (config_path quiet_env @ ''logs.json'')
             = Some \<lparr>content = Text (JObj []), mtime_ms = 1700000000000\<rparr>"
    by (simp add: logs_state_def empty_state_def quiet_env_def)
  have 4: "0 \<le> mtime_ms \<lparr>content = Text (JObj []), mtime_ms = 1700000000000\<rparr>"
    by simp
  have 5: "\<not> in_process logs_state"
    by (simp add: logs_state_def empty_state_def)
  from missing_ts_skipped [OF 1 2 3 4] have
    "\<not> in_process logs_state \<longrightarrow>
       process_config_request quiet_env [(Any_line, \<lambda>c. throw RuntimeError)]
         (JObj [(''logs_configuration'', JObj [(''version'', JInt 1)])]) logs_state
       = Returned () logs_state"
    by (rule conjunct2 [OF conjunct2])
  from this 5 show ?thesis by (rule mp)
qed

section \<open>Single flight\<close>

text \<open>
  C2. While a request is in flight (\<open>in_process\<close> is set) a new request is rejected: the
  call returns at once, no change detector and no handler runs, and the state is the one
  before but for the error record in the log. A request that is executed leaves \<open>in_process\<close>
  false when the call returns and when an exception leaves it, whatever the handlers do.
\<close>

theorem single_flight:
  "(in_process st \<longrightarrow>
      process_config_request E hs config st =
        Returned () (emit (Log_error already_in_processing) st))
   \<and> (\<not> in_process st \<longrightarrow>
        (\<forall>v st'. process_config_request E hs config st = Returned v st' \<longrightarrow> \<not> in_process st')
      \<and> (\<forall>e st'. process_config_request E hs config st = Raised e st' \<longrightarrow> \<not> in_process st'))"
  by (auto simp: process_config_request_def split: result.splits if_splits json.splits)

text \<open>A busy configurator rejects a request whose handler would raise; an idle one runs it,
  the \<open>TypeError\<close> leaves the method, and the flag is clear afterwards.\<close>

theorem single_flight_witness:
  "process_config_request quiet_env [(Any_line, \<lambda>c. throw TypeError)]
       (JObj [(''X'', JNull)]) (empty_state\<lparr>in_process := True\<rparr>)
     = Returned () (emit (Log_error already_in_processing) (empty_state\<lparr>in_process := True\<rparr>))
   \<and> process_config_request quiet_env [(Any_line, \<lambda>c. throw TypeError)]
       (JObj [(''X'', JNull)]) empty_state
     = Raised TypeError empty_state
   \<and> \<not> in_process empty_state"
proof (intro conjI)
  have "in_process (empty_state\<lparr>in_process := True\<rparr>)" by simp
  then show "process_config_request quiet_env [(Any_line, \<lambda>c. throw TypeError)]
       (JObj [(''X'', JNull)]) (empty_state\<lparr>in_process := True\<rparr>)
     = Returned () (emit (Log_error already_in_processing) (empty_state\<lparr>in_process := True\<rparr>))"
    by (rule mp [OF conjunct1 [OF single_flight]])
next
  show run: "process_config_request quiet_env [(Any_line, \<lambda>c. throw TypeError)]
       (JObj [(''X'', JNull)]) empty_state = Raised TypeError empty_state"
    by (simp add: process_config_request_def is_modified_def resolve_file_path_def
        throw_def empty_state_def)
  have idle: "\<not> in_process empty_state" by (simp add: empty_state_def)
  from mp [OF conjunct2 [OF single_flight] idle]
  have "\<forall>e st'. process_config_request quiet_env [(Any_line, \<lambda>c. throw TypeError)]
          (JObj [(''X'', JNull)]) empty_state = Raised e st' \<longrightarrow> \<not> in_process st'"
    by (rule conjunct2)
  with run show "\<not> in_process empty_state" by blast
qed

section \<open>Storage: swap and verify\<close>

text \<open>
  C5. Constructing the new storage backend (looking up the class of \<open>config["type"]\<close> and
  calling it) either raises or returns, and changes nothing by itself. When it raises,
  the handler returns with the old backend in place, the stored storage configuration and
  all files as before, and nothing done but the two error records: no file is written and
  no acknowledgement sent. When it returns a backend, and the store has its \<open>storage\<close>
  key and connector entries with \<open>type\<close>, \<open>name\<close> and \<open>configuration\<close>, the handler
  installs the backend, merges the payload into the stored storage configuration,
  rewrites \<open>tb_gateway.json\<close> with the new configuration and sends the
  \<open>storage_configuration\<close> acknowledgement (whose own failure is all that can still
  raise).
\<close>

theorem storage_update:
  "((\<exists>e. new_event_storage E config st = Raised e st)
      \<or> (\<exists>s. new_event_storage E config st = Returned s st))
   \<and> (\<forall>e. new_event_storage E config st = Raised e st \<longrightarrow>
      handle_storage_configuration_update E config st =
        Returned () (st\<lparr>trace := trace st @
           [Log_error storage_revert_message, Log_exception e]\<rparr>))
   \<and> (\<forall>s sd cc.
        new_event_storage E config st = Returned s st
        \<and> storage st = Some sd
        \<and> local_connectors (stored_connectors st) = Inr cc \<longrightarrow>
        (\<exists>d. config = JObj d \<and>
        (let sd' = dict_update sd d;
             j = local_format (st\<lparr>storage := Some sd'\<rparr>) cc;
             tr = trace st @ [Truncated (general_file E), Written (general_file E) j];
             ack = Send_attributes (JStr ''storage_configuration'') (JObj sd');
             st' = st\<lparr>event_storage := s, storage := Some sd',
                      connectors := map_option (map strip_connector) (connectors st),
                      files := (files st)(general_file E \<mapsto>
                                 \<lparr>content = Text j, mtime_ms = clock_ms st\<rparr>),
                      clock_ms := clock_ms st + int (call_cost_ms E tr ack),
                      trace := tr @ [Called ack]\<rparr>
         in handle_storage_configuration_update E config st =
              (case call_raises E tr ack of
                 None \<Rightarrow> Returned () st' | Some e \<Rightarrow> Raised e st'))))"
proof (intro conjI allI impI)
  show "(\<exists>e. new_event_storage E config st = Raised e st)
      \<or> (\<exists>s. new_event_storage E config st = Returned s st)"
    using new_event_storage_cases [of E config st] by blast
next
  fix e assume "new_event_storage E config st = Raised e st"
  then show "handle_storage_configuration_update E config st =
        Returned () (st\<lparr>trace := trace st @
           [Log_error storage_revert_message, Log_exception e]\<rparr>)"
    by (rule storage_update_failure)
next
  fix s sd cc
  assume a: "new_event_storage E config st = Returned s st
        \<and> storage st = Some sd
        \<and> local_connectors (stored_connectors st) = Inr cc"
  then obtain d where d: "config = JObj d"
    using new_event_storage_cases [of E config st] by auto
  from a d have n: "new_event_storage E (JObj d) st = Returned s st" by simp
  from a have sd: "storage st = Some sd" and cc: "local_connectors (stored_connectors st) = Inr cc"
    by simp_all
  from storage_update_success [OF n sd cc, of ] d
  show "\<exists>d. config = JObj d \<and>
        (let sd' = dict_update sd d;
             j = local_format (st\<lparr>storage := Some sd'\<rparr>) cc;
             tr = trace st @ [Truncated (general_file E), Written (general_file E) j];
             ack = Send_attributes (JStr ''storage_configuration'') (JObj sd');
             st' = st\<lparr>event_storage := s, storage := Some sd',
                      connectors := map_option (map strip_connector) (connectors st),
                      files := (files st)(general_file E \<mapsto>
                                 \<lparr>content = Text j, mtime_ms = clock_ms st\<rparr>),
                      clock_ms := clock_ms st + int (call_cost_ms E tr ack),
                      trace := tr @ [Called ack]\<rparr>
         in handle_storage_configuration_update E config st =
              (case call_raises E tr ack of
                 None \<Rightarrow> Returned () st' | Some e \<Rightarrow> Raised e st'))"
    by blast
qed

text \<open>On the running gateway an unknown storage type \<open>file\<close> is reverted; a \<open>memory\<close>
  payload is installed, merged, written and acknowledged.\<close>

theorem storage_update_witness:
  "handle_storage_configuration_update quiet_env (JObj [(''type'', JStr ''file'')]) gateway_state
     = Returned () (gateway_state\<lparr>trace :=
         [Log_error storage_revert_message, Log_exception KeyError]\<rparr>)
   \<and> (\<exists>st'. handle_storage_configuration_update quiet_env
          (JObj [(''type'', JStr ''memory''), (''max_records_count'', JInt 100)]) gateway_state
          = Returned () st'
        \<and> event_storage st' = 1
        \<and> storage st' = Some [(''type'', JStr ''memory''), (''read_records_count'', JInt 10),
                              (''max_records_count'', JInt 100)]
        \<and> map_option content (files st' ''/etc/tb/tb_gateway.json'')
            = Some (Text (local_format st'
                [JObj [(''type'', JStr ''mqtt''), (''name'', JStr ''Mqtt''),
                       (''configuration'', JStr ''mqtt.json'')]]))
        \<and> length (trace st') = 3
        \<and> last (trace st') = Called (Send_attributes (JStr ''storage_configuration'')
             (JObj [(''type'', JStr ''memory''), (''read_records_count'', JInt 10),
                    (''max_records_count'', JInt 100)])))"
proof (intro conjI)
  have "new_event_storage quiet_env (JObj [(''type'', JStr ''file'')]) gateway_state
          = Raised KeyError gateway_state"
    by (simp add: new_event_storage_def prog_defs quiet_env_def)
  with storage_update [of quiet_env "JObj [(''type'', JStr ''file'')]" gateway_state]
  show "handle_storage_configuration_update quiet_env (JObj [(''type'', JStr ''file'')]) gateway_state
     = Returned () (gateway_state\<lparr>trace :=
         [Log_error storage_revert_message, Log_exception KeyError]\<rparr>)"
    by (simp add: gateway_state_def)
next
  let ?c = "JObj [(''type'', JStr ''memory''), (''max_records_count'', JInt 100)]"
  have "new_event_storage quiet_env ?c gateway_state = Returned 1 gateway_state
     \<and> storage gateway_state = Some [(''type'', JStr ''memory''), (''read_records_count'', JInt 10)]
     \<and> local_connectors (stored_connectors gateway_state)
        = Inr [JObj [(''type'', JStr ''mqtt''), (''name'', JStr ''Mqtt''),
                       (''configuration'', JStr ''mqtt.json'')]]"
    by (simp add: new_event_storage_def prog_defs quiet_env_def gateway_state_def
        stored_connectors_def strip_connector_def dict_item_def)
  with storage_update [of quiet_env ?c gateway_state]
  show "\<exists>st'. handle_storage_configuration_update quiet_env ?c gateway_state
          = Returned () st'
        \<and> event_storage st' = 1
        \<and> storage st' = Some [(''type'', JStr ''memory''), (''read_records_count'', JInt 10),
                              (''max_records_count'', JInt 100)]
        \<and> map_option content (files st' ''/etc/tb/tb_gateway.json'')
            = Some (Text (local_format st'
                [JObj [(''type'', JStr ''mqtt''), (''name'', JStr ''Mqtt''),
                       (''configuration'', JStr ''mqtt.json'')]]))
        \<and> length (trace st') = 3
        \<and> last (trace st') = Called (Send_attributes (JStr ''storage_configuration'')
             (JObj [(''type'', JStr ''memory''), (''read_records_count'', JInt 10),
                    (''max_records_count'', JInt 100)]))"
    by (simp add: Let_def quiet_env_def dict_update_def general_file_def local_format_def
        general_configuration_def storage_configuration_def grpc_configuration_def
        gateway_state_def)
qed

section \<open>Connectors: backup on change\<close>







lemma logged_returns:
  assumes "after (try_except m log_exception st) = Some st'"
  shows "try_except m log_exception st = Returned () st'"
  using assms
  by (cases "m st") (simp_all add: try_except_def after_def log_exception_def modify_def)

lemma backup_file_path_stripped [simp]:
  "backup_file_path E n (stripped st) = backup_file_path E n st"
  by (simp add: backup_file_path_def stripped_def int_time_def)

lemma backup_file_path_files [simp]:
  "backup_file_path E n (st\<lparr>files := fs\<rparr>) = backup_file_path E n st"
  by (simp add: backup_file_path_def int_time_def)

lemma is_dir_stripped [simp]: "is_dir (stripped st) p = is_dir st p"
  by (simp add: is_dir_def stripped_def)

lemma files_stripped [simp]: "files (stripped st) = files st"
  by (simp add: stripped_def)

lemma clock_stripped [simp]: "clock_ms (stripped st) = clock_ms st"
  by (simp add: stripped_def)

lemma trace_stripped [simp]: "trace (stripped st) = trace st"
  by (simp add: stripped_def)



lemma backup_folder_clean:
  "CHR 0x00 \<notin> set (backup_file_path E name st) \<Longrightarrow> CHR 0x00 \<notin> set (config_path E @ ''backup'')"
  by (simp add: backup_file_path_def)

text \<open>
  A configuration name without directory part: the backup lies in the folder \<open>backup\<close>
  itself, the seconds being digits, with a sign before 1970.
\<close>

lemma digit_chars: "k < 10 \<Longrightarrow> char_of (48 + k :: nat) \<in> set ''0123456789''"
proof -
  assume "k < 10"
  then have "k = 0 \<or> k = 1 \<or> k = 2 \<or> k = 3 \<or> k = 4 \<or> k = 5 \<or> k = 6 \<or> k = 7 \<or> k = 8 \<or> k = 9"
    by arith
  then show ?thesis
    by (elim disjE) (simp_all add: char_of_def bit_0)
qed


lemma str_nat_digits: "set (str_nat n) \<subseteq> set ''0123456789''"
proof (induction n rule: str_nat.induct)
  case (1 n)
  show ?case
  proof (cases "n < 10")
    case True
    then have "str_nat n = [char_of (48 + n)]"
      by (subst str_nat.simps) (simp del: str_nat.simps)
    with digit_chars [OF True] show ?thesis
      by (simp del: str_nat.simps)
  next
    case False
    then have e: "str_nat n = str_nat (n div 10) @ [char_of (48 + n mod 10)]"
      by (subst str_nat.simps) (simp del: str_nat.simps)
    have "n mod 10 < 10" by simp
    from digit_chars [OF this] 1 [OF False] show ?thesis
      unfolding e by (simp del: str_nat.simps)
  qed
qed


lemma digits_plain:
  assumes "set s \<subseteq> set ''0123456789''"
  shows "CHR ''/'' \<notin> set s \<and> CHR 0x00 \<notin> set s"
proof -
  have "CHR ''/'' \<notin> set ''0123456789'' \<and> CHR 0x00 \<notin> set ''0123456789''"
    by simp
  with assms show ?thesis by blast
qed

lemma str_int_plain: "CHR ''/'' \<notin> set (str_int i) \<and> CHR 0x00 \<notin> set (str_int i)"
proof (cases "i < 0")
  case True
  then have e: "str_int i = CHR ''-'' # str_nat (nat (- i))"
    by (simp only: str_int_def if_True)
  from digits_plain [OF str_nat_digits, of "nat (- i)"] show ?thesis
    unfolding e by (simp del: str_nat.simps)
next
  case False
  then have e: "str_int i = str_nat (nat i)"
    by (simp only: str_int_def if_False)
  from digits_plain [OF str_nat_digits, of "nat i"] show ?thesis
    unfolding e by (simp del: str_nat.simps)
qed


lemma folder_of_plain:
  assumes "CHR ''/'' \<notin> set file"
  shows "folder_of (folder @ ''/'' @ file) = folder"
proof -
  from assms have "\<And>x. x \<in> set (rev file) \<Longrightarrow> x \<noteq> CHR ''/''"
    by auto
  then have "dropWhile (\<lambda>c. c \<noteq> CHR ''/'') (rev file @ CHR ''/'' # rev folder)
      = dropWhile (\<lambda>c. c \<noteq> CHR ''/'') (CHR ''/'' # rev folder)"
    by (rule dropWhile_append2)
  then show ?thesis
    by (simp add: folder_of_def)
qed

lemma plain_name_folder:
  assumes "CHR ''/'' \<notin> set name"
  shows "folder_of (backup_file_path E name st) = config_path E @ ''backup''"
proof -
  from assms str_int_plain [of "int_time st"]
  have "CHR ''/'' \<notin> set (name @ ''_backup_'' @ str_int (int_time st))"
    by (simp del: str_nat.simps)
  from folder_of_plain [OF this, of "config_path E @ ''backup''"]
  show ?thesis by (simp add: backup_file_path_def del: str_nat.simps)
qed

lemma plain_name_clean:
  assumes "CHR 0x00 \<notin> set (config_path E)" and "CHR 0x00 \<notin> set name"
  shows "CHR 0x00 \<notin> set (backup_file_path E name st)"
  using assms str_int_plain [of "int_time st"]
  by (simp add: backup_file_path_def del: str_nat.simps)

lemma plain_name_can_be_backed_up:
  assumes "CHR ''/'' \<notin> set name" and "CHR 0x00 \<notin> set name"
    and "CHR 0x00 \<notin> set (config_path E)"
    and "files st (config_path E @ ''backup'') = None \<or> is_dir st (config_path E @ ''backup'')"
  shows "CHR 0x00 \<notin> set (backup_file_path E name st)
    \<and> (is_dir st (folder_of (backup_file_path E name st))
       \<or> files st (config_path E @ ''backup'') = None
         \<and> folder_of (backup_file_path E name st) = config_path E @ ''backup'')"
  using assms plain_name_folder [of name E st] plain_name_clean [of E name st]
  by auto


text \<open>When the backup's folder is missing, the folder \<open>backup\<close> is made if nothing is at
  its place, and opening the backup raises \<open>OSError\<close>.\<close>

lemma backup_refused:
  assumes nul: "CHR 0x00 \<notin> set (backup_file_path E name st)"
    and dir: "\<not> is_dir st (folder_of (backup_file_path E name st))"
    and oth: "folder_of (backup_file_path E name st) \<noteq> config_path E @ ''backup''"
  shows "create_configuration_file_backup E data name st =
     Raised OSError (st\<lparr>
        files := (if files st (config_path E @ ''backup'') = None
                  then (files st)(config_path E @ ''backup'' \<mapsto>
                         \<lparr>content = Folder, mtime_ms = clock_ms st\<rparr>)
                  else files st)\<rparr>)"
proof (cases "files st (config_path E @ ''backup'') = None")
  case True
  let ?st = "st\<lparr>files := (files st)(config_path E @ ''backup'' \<mapsto>
                         \<lparr>content = Folder, mtime_ms = clock_ms st\<rparr>)\<rparr>"
  from True have m: "mkdir (config_path E @ ''backup'') st = Returned () ?st"
    using backup_folder_clean [OF nul] by (simp add: mkdir_def)
  from dir oth have d: "\<not> is_dir ?st (folder_of (backup_file_path E name st))"
    by (simp add: is_dir_def)
  from nul d have "open_in_folder (backup_file_path E name st) ?st = Raised OSError ?st"
    by (simp add: open_in_folder_def)
  with True m show ?thesis
    by (simp add: create_configuration_file_backup_def bnd_def gets_def andthen_def modify_def)
next
  case False
  then obtain y where y: "files st (config_path E @ ''backup'') = Some y"
    by blast
  from nul dir have "open_in_folder (backup_file_path E name st) st = Raised OSError st"
    by (simp add: open_in_folder_def)
  with y show ?thesis
    by (simp add: create_configuration_file_backup_def bnd_def gets_def andthen_def modify_def
        ret_def)
qed


lemma existing_connector_fails:
  assumes c: "dict_item d ''configuration'' = Inr (JStr name)"
    and m: "matching (stored_connectors st) d = Inr found"
    and f: "first_true found = Some i"
    and b: "backup_if_changed E d name (stripped st) = Raised e st1"
  shows "handle_connector_configuration_update E (JObj d) st =
     Returned () (st1\<lparr>trace := trace st1 @ [Log_exception e]\<rparr>)"
  using c m f b
  by (simp add: handle_connector_configuration_update_def change_connector_def
      try_except_def bnd_def lift_sum_def connectors_configuration_eq dict_item_def
      log_exception_def modify_def emit_def split: option.splits)

lemma backup_if_changed_reduces:
  assumes "files st (config_path E @ name) = Some f" and "content f = Text data"
    and "dict_item d ''configurationJson'' = Inr cj"
    and "hash_str E data \<noteq> hash_str E cj"
  shows "backup_if_changed E d name (stripped st) =
     andthen (create_configuration_file_backup E data name) (ret True) (stripped st)"
  using assms
  by (simp add: backup_if_changed_def bnd_def gets_def load_json_def lift_sum_def)


lemma backup_if_changed_refused:
  assumes fl: "files st (config_path E @ name) = Some f" and ct: "content f = Text data"
    and cj: "dict_item d ''configurationJson'' = Inr cj"
    and h: "hash_str E data \<noteq> hash_str E cj"
    and nul: "CHR 0x00 \<notin> set (backup_file_path E name st)"
    and dir: "\<not> is_dir st (folder_of (backup_file_path E name st))"
    and oth: "folder_of (backup_file_path E name st) \<noteq> config_path E @ ''backup''"
  shows "backup_if_changed E d name (stripped st) =
     Raised OSError ((stripped st)\<lparr>
        files := (if files st (config_path E @ ''backup'') = None
                  then (files st)(config_path E @ ''backup'' \<mapsto>
                         \<lparr>content = Folder, mtime_ms = clock_ms st\<rparr>)
                  else files st)\<rparr>)"
proof -
  have "create_configuration_file_backup E data name (stripped st) =
     Raised OSError ((stripped st)\<lparr>
        files := (if files (stripped st) (config_path E @ ''backup'') = None
                  then (files (stripped st))(config_path E @ ''backup'' \<mapsto>
                         \<lparr>content = Folder, mtime_ms = clock_ms (stripped st)\<rparr>)
                  else files (stripped st))\<rparr>)"
    by (rule backup_refused) (use nul dir oth in simp_all)
  then show ?thesis
    by (simp add: backup_if_changed_reduces [OF fl ct cj h] andthen_def bnd_def ret_def)
qed


lemmas eval_defs = handle_connector_configuration_update_def change_connector_def
  apply_change_def acknowledge_def backup_if_changed_def add_connector_def
  connectors_configuration_def strip_connector_def summary_differs_def summary_entry_def
  update_configuration_json_def update_entry_def restart_connector_def load_connectors_def
  connect_with_connectors_def connector_instance_def pop_connector_def
  get_general_config_in_local_format_def save_general_config_def general_file_def
  open_w_def write_json_def load_json_def create_configuration_file_backup_def call_def
  send_attributes_def dict_item_def dict_get_def dict_update_def py_eq_def
  bnd_def andthen_def ret_def throw_def try_except_def lift_sum_def gets_def
  modify_def log_error_def log_exception_def emit_def mkdir_def open_in_folder_def
  is_dir_def folder_of_def

lemma backup_stamp: "str_int 1700000100 = ''1700000100''"
  by (simp add: str_int_def char_of_def bit_0)



text \<open>
  What the counterexample shows holds in general: when the hashes differ and the folder
  of the backup is missing, and is not \<open>backup\<close> itself, the handler logs the \<open>OSError\<close>
  and returns; it has written no backup and has not opened the connector's file.
\<close>

lemma no_backup_without_folder:
  assumes c: "dict_item d ''configuration'' = Inr (JStr name)"
    and m: "matching (stored_connectors st) d = Inr found"
    and f: "first_true found = Some i"
    and fl: "files st (config_path E @ name) = Some f'"
    and ct: "content f' = Text data"
    and cj: "dict_item d ''configurationJson'' = Inr cj"
    and h: "hash_str E data \<noteq> hash_str E cj"
    and nul: "CHR 0x00 \<notin> set (backup_file_path E name st)"
    and dir: "\<not> is_dir st (folder_of (backup_file_path E name st))"
    and oth: "folder_of (backup_file_path E name st) \<noteq> config_path E @ ''backup''"
  shows "handle_connector_configuration_update E (JObj d) st =
     Returned () ((stripped st)\<lparr>
        files := (if files st (config_path E @ ''backup'') = None
                  then (files st)(config_path E @ ''backup'' \<mapsto>
                         \<lparr>content = Folder, mtime_ms = clock_ms st\<rparr>)
                  else files st),
        trace := trace st @ [Log_exception OSError]\<rparr>)"
  using existing_connector_fails [OF c m f backup_if_changed_refused [OF fl ct cj h nul dir oth]]
  by simp

text \<open>A file that holds no JSON document is not backed up either: loading it raises
  \<open>ValueError\<close>, which the handler logs.\<close>

lemma no_backup_of_unparsable_file:
  assumes c: "dict_item d ''configuration'' = Inr (JStr name)"
    and m: "matching (stored_connectors st) d = Inr found"
    and f: "first_true found = Some i"
    and fl: "files st (config_path E @ name) = Some f'"
    and ct: "content f' = Unparsable"
  shows "handle_connector_configuration_update E (JObj d) st =
     Returned () ((stripped st)\<lparr>trace := trace st @ [Log_exception ValueError]\<rparr>)"
proof -
  from fl ct have "backup_if_changed E d name (stripped st) = Raised ValueError (stripped st)"
    by (simp add: backup_if_changed_def bnd_def gets_def load_json_def)
  from existing_connector_fails [OF c m f this] show ?thesis
    by simp
qed

text \<open>On the running gateway the backup of \<open>mqtt.json\<close> is followed by the file's
  rewrite, with \<open>logLevel\<close> and \<open>name\<close> merged into the document.\<close>

lemma backup_precedes_rewrite:
  "\<exists>st'. handle_connector_configuration_update quiet_env (JObj mqtt_update) gateway_state
      = Returned () st'
    \<and> take 3 (trace st') =
        [Backup_written (backup_file_path quiet_env ''mqtt.json'' gateway_state)
           (JObj [(''broker'', JStr ''b.example'')]),
         Truncated ''/etc/tb/mqtt.json'',
         Written ''/etc/tb/mqtt.json''
           (JObj [(''broker'', JStr ''broker2.example''), (''logLevel'', JStr ''INFO''),
                  (''name'', JStr ''Mqtt'')])]
    \<and> length (trace st') = 7
    \<and> backup_file_path quiet_env ''mqtt.json'' gateway_state
        = ''/etc/tb/backup/mqtt.json_backup_1700000100''"
  by (simp add: eval_defs mqtt_update_def gateway_state_def quiet_env_def backup_file_path_def
      int_time_def backup_stamp Let_def)


section \<open>Connectors: unique names\<close>

lemma apply_change_steady:
  assumes "summary_entry d fname = Inl x"
  shows "frame steady (apply_change E i fc d fname name cc)"
  using assms unfolding apply_change_def
  by (simp cong: if_cong) (intro steady_intros)

lemma updated_refl: "reflp (updated i e)"
  by (simp add: reflp_def updated_def)

lemma apply_change_updated:
  assumes e: "summary_entry d fname = Inr e"
  shows "frame (updated i e) (apply_change E i fc d fname name cc)"
proof -
  note pre = frame_compose [where K = steady and S = "updated i e" and G = "updated i e",
      OF _ _ steady_then_updated steady_updated]
  note post = frame_compose [where K = "updated i e" and S = steady and G = "updated i e",
      OF _ _ updated_then_steady [OF summary_entry_keys(1) [OF e]]]
  have mid: "frame (updated i e)
      (if sc then bnd (update_entry i e) (\<lambda>_. ret e) else ret fc)" for sc
  proof (cases sc)
    case True
    have "frame (updated i e) (bnd (update_entry i e) (\<lambda>_. ret e))"
      by (rule post [OF frame_update_entry]) (intro steady_intros, assumption+)
    with True show ?thesis by simp
  next
    case False
    then show ?thesis by (simp add: frame_ret [OF updated_refl])
  qed
  show ?thesis
    unfolding apply_change_def andthen_def
    apply (simp add: e cong: if_cong)
    apply (rule pre, intro steady_intros)
    apply (rule post)
       apply (rule mid)
      apply (intro steady_intros [unfolded andthen_def])
     apply assumption+
    done
qed

lemma change_connector_steady:
  assumes "summary_entry d fname = Inl x"
  shows "frame steady (change_connector E i fc d fname)"
  unfolding change_connector_def
  by (intro steady_intros apply_change_steady [OF assms])

lemma change_connector_updated:
  assumes e: "summary_entry d fname = Inr e"
  shows "frame (updated i e) (change_connector E i fc d fname)"
proof -
  note pre = frame_compose [where K = steady and S = "updated i e" and G = "updated i e",
      OF _ _ steady_then_updated steady_updated]
  show ?thesis
    unfolding change_connector_def
    apply (rule pre, intro steady_intros)
    apply (rule pre, intro steady_intros)
      apply (rule apply_change_updated [OF e])
     apply assumption+
    done
qed


lemma wrap_frame:
  assumes b: "frame G m" and c: "\<And>a b c. G a b \<Longrightarrow> steady b c \<Longrightarrow> G a c"
  shows "frame G (try_except (bnd m (acknowledge E)) log_exception)"
proof -
  have "frame G (bnd m (acknowledge E))"
    by (rule frame_compose [where K = G and S = steady, OF b steady_acknowledge c])
  then show ?thesis
    by (rule frame_try_compose [where K = G and S = steady, OF _ steady_log_exception c])
qed

lemma steady_steady: "steady a b \<Longrightarrow> steady b c \<Longrightarrow> steady a c"
  using steady_trans by (rule transpD)

lemma connector_names_eq:
  "connectors st' = connectors st \<Longrightarrow> connector_names st' = connector_names st"
  by (simp add: connector_names_def)

lemma connector_names_stored:
  "connector_names st = concat (map entry_name (stored_connectors st))"
  by (cases "connectors st") (simp_all add: connector_names_def stored_connectors_def comp_def)

lemma handler_reduces:
  assumes "map_of d ''configuration'' = Some fname"
  shows "handle_connector_configuration_update E (JObj d) st =
     try_except (bnd (lift_sum (matching (stored_connectors st) d)) (\<lambda>found.
        bnd (case first_true found of
               None \<Rightarrow> add_connector E d fname
             | Some i \<Rightarrow> change_connector E i (stored_connectors st ! i) d fname)
          (acknowledge E))) log_exception (stripped st)"
  using assms
  by (simp add: handle_connector_configuration_update_def try_except_def bnd_def
      connectors_configuration_eq)


lemma grown_same: "connectors st' = connectors (stripped st) \<Longrightarrow> grown st st'"
  using connector_names_eq [of st' "stripped st"] by (simp add: grown_def)

lemma logged_frame:
  assumes "frame G (try_except m log_exception)" and "\<And>st'. G (stripped st) st' \<Longrightarrow> grown st st'"
  shows "\<exists>st'. try_except m log_exception (stripped st) = Returned () st' \<and> grown st st'"
proof -
  from frameD [OF assms(1), of "stripped st"] obtain st'
    where a: "after (try_except m log_exception (stripped st)) = Some st'"
      and g: "G (stripped st) st'" by blast
  from logged_returns [OF a] assms(2) [OF g] show ?thesis by blast
qed

lemma grown_steady: "steady (stripped st) st' \<Longrightarrow> grown st st'"
  by (rule grown_same) (simp add: steady_def)

lemma grown_appended:
  assumes e: "summary_entry d fname = Inr e"
    and m: "matching (stored_connectors st) d = Inr found"
    and f: "first_true found = None"
    and a: "appended e (stripped st) st'"
  shows "grown st st'"
proof -
  from a consider "connectors st' = connectors (stripped st)"
    | "connectors st' = map_option (\<lambda>cs. cs @ [e]) (connectors (stripped st))"
    by (auto simp: appended_def)
  then show ?thesis
  proof cases
    case 1
    then show ?thesis by (rule grown_same)
  next
    case 2
    from e obtain n where n: "dict_item d ''name'' = Inr n"
      by (auto simp: summary_entry_def split: sum.splits)
    with summary_entry_keys(3) [OF e] have en: "entry_name e = [canon n]"
      by (simp add: entry_name_def dict_item_def split: option.splits)
    from matching_none [OF m f n]
    have notin: "canon n \<notin> set (connector_names st)"
      by (simp add: connector_names_stored)
    show ?thesis
    proof (cases "connectors st")
      case None
      with 2 show ?thesis by (simp add: grown_def connector_names_def stripped_def)
    next
      case (Some cs)
      with 2 have "connector_names st' = connector_names st @ [canon n]"
        by (simp add: connector_names_def stripped_def en comp_def)
      with notin show ?thesis by (auto simp: grown_def)
    qed
  qed
qed

lemma grown_updated:
  assumes e: "summary_entry d fname = Inr e"
    and m: "matching (stored_connectors st) d = Inr found"
    and f: "first_true found = Some i"
    and a: "updated i e (stripped st) st'"
  shows "grown st st'"
proof -
  from a consider "connectors st' = connectors (stripped st)"
    | "connectors st' = map_option (\<lambda>cs. cs[i := dict_update (cs ! i) e]) (connectors (stripped st))"
    by (auto simp: updated_def)
  then show ?thesis
  proof cases
    case 1
    then show ?thesis by (rule grown_same)
  next
    case 2
    let ?cs = "stored_connectors st"
    from matching_some [OF m f] obtain a n where i: "i < length ?cs"
      and ai: "map_of (?cs ! i) ''name'' = Some a" and dn: "map_of d ''name'' = Some n"
      and c: "canon a = canon n" by blast
    have "entry_name (dict_update (?cs ! i) e) = entry_name (?cs ! i)"
      using summary_entry_keys(2) [OF e, of "?cs ! i"] ai dn c by (simp add: entry_name_def)
    then have same: "map entry_name (?cs[i := dict_update (?cs ! i) e]) = map entry_name ?cs"
      using i by (simp add: map_update list_update_same_conv)
    show ?thesis
    proof (cases "connectors st")
      case None
      with 2 show ?thesis by (simp add: grown_def connector_names_def stripped_def)
    next
      case (Some cs)
      then have sc: "?cs = map strip_connector cs" by (simp add: stored_connectors_def)
      from 2 Some have "connectors st' = Some (?cs[i := dict_update (?cs ! i) e])"
        by (simp add: stripped_def sc)
      then have "connector_names st' = concat (map entry_name ?cs)"
        by (simp add: connector_names_def same)
      then show ?thesis by (simp add: grown_def connector_names_stored)
    qed
  qed
qed

lemma handler_names:
  "\<exists>st'. handle_connector_configuration_update E config st = Returned () st' \<and> grown st st'"
proof (cases "py_getitem config ''configuration''")
  case (Inl x)
  then have "handle_connector_configuration_update E config st
      = Returned () (st\<lparr>trace := trace st @ [Log_exception x]\<rparr>)"
    by (simp add: handle_connector_configuration_update_def try_except_def throw_def
        log_exception_def modify_def emit_def)
  moreover have "grown st (st\<lparr>trace := trace st @ [Log_exception x]\<rparr>)"
    by (simp add: grown_def connector_names_def)
  ultimately show ?thesis by blast
next
  case (Inr fname)
  then obtain d where d: "config = JObj d" and fn: "map_of d ''configuration'' = Some fname"
    by (cases config) (auto split: option.splits)
  let ?cs = "stored_connectors st"
  note red = handler_reduces [OF fn, of E st]
  show ?thesis
  proof (cases "matching ?cs d")
    case (Inl x)
    have "frame steady (try_except (throw x :: unit prog) log_exception)"
      by (intro steady_intros)
    from logged_frame [where st = st, OF this grown_steady] red Inl d show ?thesis by simp
  next
    case m: (Inr found)
    show ?thesis
    proof (cases "summary_entry d fname")
      case (Inl x)
      have "frame steady (case first_true found of
               None \<Rightarrow> add_connector E d fname
             | Some i \<Rightarrow> change_connector E i (?cs ! i) d fname)"
        by (cases "first_true found")
          (simp_all add: add_connector_steady [OF Inl] change_connector_steady [OF Inl])
      from wrap_frame [where E = E, OF this steady_steady]
      have "frame steady (try_except (bnd (case first_true found of
               None \<Rightarrow> add_connector E d fname
             | Some i \<Rightarrow> change_connector E i (?cs ! i) d fname) (acknowledge E)) log_exception)" .
      from logged_frame [where st = st, OF this grown_steady] red m d show ?thesis by simp
    next
      case e: (Inr e)
      note se = summary_entry_keys(1) [OF e]
      show ?thesis
      proof (cases "first_true found")
        case None
        from wrap_frame [where E = E, OF add_connector_appended [OF e] appended_then_steady [OF se]]
        have "frame (appended e)
            (try_except (bnd (add_connector E d fname) (acknowledge E)) log_exception)" .
        from logged_frame [where st = st, OF this grown_appended [OF e m None]] red m d None
        show ?thesis by simp
      next
        case (Some i)
        from wrap_frame [where E = E, OF change_connector_updated [OF e] updated_then_steady [OF se]]
        have "frame (updated i e)
            (try_except (bnd (change_connector E i (?cs ! i) d fname) (acknowledge E))
               log_exception)" .
        from logged_frame [where st = st, OF this grown_updated [OF e m Some]] red m d Some
        show ?thesis by simp
      qed
    qed
  qed
qed


lemma grown_unique: "grown st st' \<Longrightarrow> unique_names st \<Longrightarrow> unique_names st'"
  by (auto simp: grown_def unique_names_def)

lemma updates_unique:
  "unique_names st \<Longrightarrow>
     \<exists>st'. apply_connector_updates E configs st = Returned () st' \<and> unique_names st'"
proof (induction configs arbitrary: st)
  case Nil
  then show ?case by (simp add: ret_def)
next
  case (Cons config configs)
  from handler_names [of E config st] obtain st1
    where h: "handle_connector_configuration_update E config st = Returned () st1"
      and g: "grown st st1" by blast
  from Cons.IH [OF grown_unique [OF g Cons.prems]] obtain st'
    where "apply_connector_updates E configs st1 = Returned () st'" and "unique_names st'"
    by blast
  with h show ?case by (auto simp: andthen_def bnd_def)
qed

text \<open>
  C9. Every connector update returns, and the names in the connector list are then the
  same as before (an update of an existing entry gives it a name equal to the one it
  had), or one name has been added that no entry had. So, from a list without two
  entries of the same name, any sequence of connector updates leaves a list without two
  entries of the same name.
\<close>

theorem connector_names_stay_unique:
  "(\<exists>st'. handle_connector_configuration_update E config st = Returned () st'
       \<and> (connector_names st' = connector_names st
          \<or> (\<exists>n. connector_names st' = connector_names st @ [n]
                \<and> n \<notin> set (connector_names st))))
   \<and> (unique_names st \<longrightarrow>
        (\<exists>st'. apply_connector_updates E configs st = Returned () st' \<and> unique_names st'))"
  using handler_names [of E config st] updates_unique [of st E configs]
  by (auto simp: grown_def)

text \<open>On the running gateway, an update of \<open>Mqtt\<close> followed by a payload for the new
  connector \<open>Modbus\<close> and the same payload again.\<close>

theorem connector_names_stay_unique_witness:
  "unique_names gateway_state
   \<and> (\<exists>st'. apply_connector_updates quiet_env
          [JObj mqtt_update, JObj modbus_new, JObj modbus_new] gateway_state = Returned () st'
        \<and> unique_names st')"
proof -
  have u: "unique_names gateway_state"
    by (simp add: unique_names_def connector_names_def gateway_state_def entry_name_def)
  from mp [OF conjunct2 [OF connector_names_stay_unique] u] u show ?thesis
    by blast
qed

section \<open>The connection protocol has no timeout\<close>

lemma poll_never:
  assumes "\<And>c t. \<not> is_connected E c t"
  shows "poll E fuel start c st =
     (if fuel = 0 \<or> clock_ms st - start \<ge> 1000 then Hang else Returned False st)"
proof (induction fuel arbitrary: st)
  case 0
  show ?case by simp
next
  case (Suc fuel)
  show ?case by (simp add: assms Suc sleep_100ms_def)
qed

lemma call_quiet:
  assumes "\<And>tr c. call_raises E tr c = None"
  shows "\<exists>st'. call E c st = Returned () st'"
  by (simp add: call_def assms Let_def)

lemma try_client_never:
  assumes n: "\<And>c t. \<not> is_connected E c t"
  shows "try_client E fuel start c st = Hang
     \<or> (\<exists>e st'. try_client E fuel start c st = Raised e st')
     \<or> (\<exists>st'. try_client E fuel start c st = Returned False st')"
  by (cases "call E (Client_connect c) st")
    (auto simp: try_client_def andthen_def bnd_def poll_never [OF n] ret_def)

lemma connect_loop_never:
  assumes n: "\<And>c t. \<not> is_connected E c t"
  shows "connect_loop E fuel start new old st = Hang
     \<or> (\<exists>e st'. connect_loop E fuel start new old st = Raised e st')"
proof (induction fuel arbitrary: st)
  case 0
  show ?case by simp
next
  case (Suc fuel)
  from try_client_never [OF n, of fuel start new st] show ?case
  proof (elim disjE exE)
    fix st1 assume 1: "try_client E fuel start new st = Returned False st1"
    from try_client_never [OF n, of fuel start old st1] show ?thesis
    proof (elim disjE exE)
      fix st2 assume 2: "try_client E fuel start old st1 = Returned False st2"
      from Suc [of st2] 1 2 show ?thesis by (auto simp: bnd_def)
    qed (auto simp: bnd_def 1)
  qed (auto simp: bnd_def)
qed


lemma try_client_silent:
  assumes n: "\<And>c t. \<not> is_connected E c t" and r: "\<And>tr c. call_raises E tr c = None"
  shows "try_client E fuel start c st = Hang
     \<or> (\<exists>st'. try_client E fuel start c st = Returned False st')"
  by (auto simp: try_client_def andthen_def bnd_def poll_never [OF n] ret_def call_def r Let_def)

lemma connect_loop_silent:
  assumes n: "\<And>c t. \<not> is_connected E c t" and r: "\<And>tr c. call_raises E tr c = None"
  shows "connect_loop E fuel start new old st = Hang"
proof (induction fuel arbitrary: st)
  case 0
  show ?case by simp
next
  case (Suc fuel)
  from try_client_silent [OF n r, of fuel start new st] show ?case
  proof (elim disjE exE)
    fix st1 assume 1: "try_client E fuel start new st = Returned False st1"
    from try_client_silent [OF n r, of fuel start old st1] show ?thesis
    proof (elim disjE exE)
      fix st2 assume 2: "try_client E fuel start old st1 = Returned False st2"
      from Suc [of st2] 1 2 show ?thesis by (auto simp: bnd_def)
    qed (auto simp: bnd_def 1)
  qed (auto simp: bnd_def)
qed

lemma apply_connection_silent:
  assumes n: "\<And>c t. \<not> is_connected E c t" and r: "\<And>tr c. call_raises E tr c = None"
    and k: "\<And>tr. \<exists>c. new_client E tr config = Inr c"
  shows "apply_connection_config E fuel config st = Hang"
proof -
  let ?st1 = "st\<lparr>clock_ms := clock_ms st + int (call_cost_ms E (trace st) (Client_disconnect (tb_client st))),
                    trace := trace st @ [Called (Client_disconnect (tb_client st))]\<rparr>"
  from k [of "trace ?st1"] obtain c where c: "new_client E (trace ?st1) config = Inr c" by blast
  show ?thesis
    using c connect_loop_silent [OF n r, of fuel "clock_ms st" c "tb_client st" ?st1]
    by (simp add: apply_connection_config_def bnd_def gets_def try_except_def andthen_def
        call_def r Let_def lift_sum_def)
qed

text \<open>
  C3. The claim is that the protocol ends within a fixed time from its start and reverts
  when no candidate is connected by then. The code reverts only in its \<open>except\<close> clause;
  the inner loop runs while at least 1000 ms \<^emph>\<open>have\<close> passed and the client is not
  connected, so that with clients that never connect it has no exit. On the gateway
  \<open>deaf_env\<close>, where nothing raises, the method does not return, whatever the fuel.
\<close>

theorem connection_never_times_out:
  "apply_connection_config deaf_env fuel config gateway_state = Hang"
  by (rule apply_connection_silent) (simp_all add: deaf_env_def quiet_env_def)


text \<open>With clients that connect, the same protocol returns \<open>True\<close>: the new client has
  been connected for 1400 ms when it is first asked.\<close>

lemma connection_returns_when_connected:
  "\<exists>st'. apply_connection_config slow_env (Suc (Suc 0)) (JObj []) gateway_state
       = Returned True st'
     \<and> tb_client st' = 1 \<and> clock_ms st' = clock_ms gateway_state + 2200"
  by (simp add: apply_connection_config_def bnd_def gets_def try_except_def andthen_def
      call_def Let_def lift_sum_def try_client_def modify_def ret_def sleep_100ms_def
      slow_env_def quiet_env_def gateway_state_def)

section \<open>General configuration: the revert after a failed connection\<close>

lemmas general_defs = handle_general_configuration_update_def connection_step_def
  connection_changed_def or_differs_def statistics_step_def
  check_statistics_configuration_changes_def DEFAULT_STATISTICS_def
  apply_statistics_config_def attempt_def write_statistics_commands_def
  install_statistics_def restore_statistics_def revert_field_def
  device_filtering_step_def remote_shell_step_def apply_device_filtering_config_def
  apply_remote_shell_config_def save_general_configuration_def set_general_configuration_def
  cleanup_def apply_connection_config_def revert_connection_def try_client_def
  general_configuration_def storage_configuration_def grpc_configuration_def local_format_def

lemma map_of_rev_distinct: "distinct (map fst xs) \<Longrightarrow> map_of (rev xs) = map_of xs"
proof (induction xs)
  case Nil
  show ?case by simp
next
  case (Cons p xs)
  obtain k v where p: "p = (k, v)" by (cases p)
  from Cons.prems p have k: "map_of xs k = None" and d: "distinct (map fst xs)"
    by (auto simp: map_of_eq_None_iff)
  show ?case
  proof (rule ext)
    fix x
    show "map_of (rev (p # xs)) x = map_of (p # xs) x"
      using k by (cases "map_of xs x") (auto simp: p Cons.IH [OF d] map_add_def)
  qed
qed

text \<open>
  C4, as stated: after a failed connection sub-step only the payload's connection fields
  are overwritten. On a gateway where the new client cannot be built, the payload asks
  for another host and for \<open>minPackSendDelayMS\<close> 500; after step 1 the payload has the
  stored host, and the stored delay of 200 as well, and has got the stored \<open>statistics\<close>.
\<close>

theorem general_revert_counterexample:
  "map_of host_change ''minPackSendDelayMS'' = Some (JInt 500)
   \<and> returned (connection_step broken_env 0 host_change gateway_state)
     = Some ([(''host'', JStr ''tb.example''), (''port'', JInt 1883), (''qos'', JInt 1),
              (''security'', JObj [(''accessToken'', JStr ''T'')]),
              (''minPackSendDelayMS'', JInt 200),
              (''statistics'', JObj [(''enable'', JBool True),
                                    (''statsSendPeriodInSeconds'', JInt 3600)])], True)"
  by (simp add: returned_def general_defs eval_defs host_change_def gateway_state_def
      broken_env_def quiet_env_def Let_def)

text \<open>
  C4, amended: when the connection fields differ and the protocol reports failure, step 1
  ends with \<open>config.update(self.general_configuration)\<close>: every key of the stored general
  configuration, connection field or not, has its stored value in the payload, and only
  the keys the stored configuration does not have keep the payload's value.
\<close>

theorem general_revert_overwrites:
  assumes ch: "connection_changed d (general_configuration st) = Inr True"
    and f: "apply_connection_config E fuel (JObj d) st = Returned False st1"
    and dk: "distinct (map fst (general_configuration st1))"
  shows "connection_step E fuel d st
           = Returned (dict_update d (general_configuration st1), True) st1
    \<and> (\<forall>k. map_of (dict_update d (general_configuration st1)) k =
          (case map_of (general_configuration st1) k of
             Some v \<Rightarrow> Some v
           | None \<Rightarrow> map_of d k))"
proof
  show "connection_step E fuel d st
           = Returned (dict_update d (general_configuration st1), True) st1"
    using ch f by (simp add: connection_step_def bnd_def gets_def lift_sum_def ret_def)
  show "\<forall>k. map_of (dict_update d (general_configuration st1)) k =
          (case map_of (general_configuration st1) k of
             Some v \<Rightarrow> Some v
           | None \<Rightarrow> map_of d k)"
    by (simp add: map_of_dict_update map_of_rev_distinct [OF dk] map_add_def)
qed


theorem general_revert_overwrites_witness:
  "connection_step broken_env 0 host_change gateway_state
     = Returned (dict_update host_change (general_configuration gateway_state), True)
         (gateway_state\<lparr>trace :=
            [Called (Client_disconnect 0), Log_exception OSError,
             Called (Client_disconnect 0), Called (Client_stop 0),
             Log_error revert_failed_message, Log_exception OSError]\<rparr>)
   \<and> map_of (dict_update host_change (general_configuration gateway_state))
         ''minPackSendDelayMS'' = Some (JInt 200)
   \<and> map_of (dict_update host_change (general_configuration gateway_state))
         ''host'' = Some (JStr ''tb.example'')"
proof -
  let ?st1 = "gateway_state\<lparr>trace :=
            [Called (Client_disconnect 0), Log_exception OSError,
             Called (Client_disconnect 0), Called (Client_stop 0),
             Log_error revert_failed_message, Log_exception OSError]\<rparr>"
  have ch: "connection_changed host_change (general_configuration gateway_state) = Inr True"
    by (simp add: connection_changed_def or_differs_def general_configuration_def
        gateway_state_def host_change_def dict_item_def py_eq_def)
  have f: "apply_connection_config broken_env 0 (JObj host_change) gateway_state
      = Returned False ?st1"
    by (simp add: general_defs eval_defs gateway_state_def broken_env_def quiet_env_def Let_def)
  have g: "general_configuration ?st1 = general_configuration gateway_state"
    by (simp add: general_configuration_def)
  have dk: "distinct (map fst (general_configuration ?st1))"
    by (simp add: general_configuration_def gateway_state_def)
  from general_revert_overwrites [OF ch f dk] show ?thesis
    by (simp add: g) (simp add: general_configuration_def gateway_state_def)
qed

section \<open>General configuration: saving\<close>

text \<open>
  C8. The claim is that every general configuration update ends with the store updated,
  the acknowledgement sent, \<open>commands\<close> removed and the file rewritten. \<open>_cleanup\<close> pops
  \<open>commands\<close> without a default, while the rest of the code treats \<open>commands\<close> as
  optional (\<open>config.get('commands', [])\<close>). A payload that repeats the stored settings,
  with statistics that have no \<open>commands\<close>, passes all steps, is stored and acknowledged,
  and then \<open>_cleanup\<close> raises \<open>KeyError\<close>: the file is not rewritten.
\<close>

theorem general_update_without_commands:
  "handle_general_configuration_update quiet_env fuel (JObj same_settings) gateway_state
   = Raised KeyError (gateway_state\<lparr>
       thingsboard := Some same_settings,
       trace := [Called (Update_gateway_config (JObj same_settings)),
                 Called (Send_attributes (JStr ''general_configuration'')
                           (JObj same_settings))]\<rparr>)"
  by (simp add: general_defs eval_defs same_settings_def gateway_state_def
      quiet_env_def Let_def)

text \<open>The same payload with \<open>commands\<close> in its statistics is stored without them, and the
  file is rewritten: two calls, the file opened, the file written.\<close>

lemma general_update_with_commands:
  "\<exists>st'. handle_general_configuration_update quiet_env fuel (JObj same_settings_with_commands)
      gateway_state = Returned () st'
    \<and> thingsboard st' = Some same_settings
    \<and> map (\<lambda>e. case e of Called c \<Rightarrow> 0 | Truncated p \<Rightarrow> 1 | Written p j \<Rightarrow> (2::nat) | _ \<Rightarrow> 3)
         (trace st') = [0, 0, 1, 2]"
  by (simp add: general_defs eval_defs same_settings_with_commands_def same_settings_def
      gateway_state_def quiet_env_def Let_def)

section \<open>Dispatch: what an error in one key does to the batch\<close>

text \<open>The loop over the keys is one recursion; a prefix that returns hands its state to the
  rest, and a key that raises ends the loop whatever follows it.\<close>

lemma process_keys_append:
  "process_keys E hs (xs @ ys) st =
     (case process_keys E hs xs st of
        Returned u st' \<Rightarrow> process_keys E hs ys st'
      | Raised e st' \<Rightarrow> Raised e st'
      | Hang \<Rightarrow> Hang)"
proof (induction xs arbitrary: st)
  case Nil
  show ?case by simp
next
  case (Cons x xs)
  obtain k v where x: "x = (k, v)" by (cases x)
  show ?case
    by (simp add: x Cons split: sum.splits bool.splits result.splits)
qed

lemma process_keys_raise_head:
  assumes "process_keys E hs [(k, v)] st = Raised e st'"
  shows "process_keys E hs ((k, v) # rest) st = Raised e st'"
  using assms
  by (simp split: if_splits sum.splits bool.splits result.splits)

text \<open>
  C1. The claim is that an error raised while handling one key is caught and logged and
  that the handlers of the following keys are still invoked. In \<open>process_config_request\<close>
  the \<open>try\<close> encloses the whole \<open>for\<close> loop, not its body. With the table of the
  program: a batch whose first key is \<open>general_configuration\<close> with an empty payload
  raises \<open>KeyError\<close> at \<open>config['host']\<close>; the error is logged and the request returns,
  and the handler of the second key, \<open>RemoteLoggingLevel\<close>, is never invoked: the trace
  holds the log line only. The same second key alone is acknowledged to the platform.
\<close>

theorem failing_key_counterexample:
  "process_config_request quiet_env (handlers quiet_env 0)
     (JObj [(''general_configuration'', JObj []), (''RemoteLoggingLevel'', JStr ''DEBUG'')])
     gateway_state
   = Returned () (gateway_state\<lparr>trace := [Log_error unknown_attribute]\<rparr>)
   \<and> process_config_request quiet_env (handlers quiet_env 0)
     (JObj [(''RemoteLoggingLevel'', JStr ''DEBUG'')]) gateway_state
   = Returned () (gateway_state\<lparr>trace :=
       [Called (Send_attributes (JStr ''RemoteLoggingLevel'') (JStr ''DEBUG''))]\<rparr>)"
  by (simp add: process_config_request_def handlers_def is_modified_def resolve_file_path_def
      modifiable_static_attrs_def handle_remote_logging_level_update_def
      general_defs eval_defs gateway_state_def quiet_env_def Let_def)

text \<open>
  C1, as the code has it. For every handler table and every batch: if the request arrives
  while none is in process, the keys before some key are handled and return, and handling
  that key raises \<open>e\<close>, then the loop ends with \<open>e\<close> in the state reached there, whatever
  keys follow: none of them is looked at. \<open>process_config_request\<close> then logs and returns
  when \<open>e\<close> is \<open>KeyError\<close> or \<open>AttributeError\<close>, and lets any other error out; in both
  cases \<open>in_process\<close> is released.
\<close>

theorem failing_key_ends_batch:
  assumes idle: "\<not> in_process st"
    and before: "process_keys E hs xs (st\<lparr>in_process := True\<rparr>) = Returned () st1"
    and fails: "process_keys E hs [(k, v)] st1 = Raised e st2"
  shows "process_keys E hs (xs @ (k, v) # rest) (st\<lparr>in_process := True\<rparr>) = Raised e st2
    \<and> process_config_request E hs (JObj (xs @ (k, v) # rest)) st =
        (if e = KeyError \<or> e = AttributeError
         then Returned () ((emit (Log_error unknown_attribute) st2)\<lparr>in_process := False\<rparr>)
         else Raised e (st2\<lparr>in_process := False\<rparr>))"
proof -
  have 1: "process_keys E hs (xs @ (k, v) # rest) (st\<lparr>in_process := True\<rparr>) = Raised e st2"
    by (simp only: process_keys_append before result.case process_keys_raise_head [OF fails])
  then show ?thesis using idle by (simp add: process_config_request_def)
qed

text \<open>An instance with the table of the program: the first key is acknowledged, the second
  has a list as payload and raises \<open>TypeError\<close>, which \<open>process_config_request\<close> does not
  catch; the third key is not handled.\<close>

theorem failing_key_ends_batch_witness:
  "process_config_request quiet_env (handlers quiet_env 0)
     (JObj [(''RemoteLoggingLevel'', JStr ''DEBUG''),
            (''general_configuration'', JList []),
            (''RemoteLoggingLevel'', JStr ''INFO'')])
     gateway_state
   = Raised TypeError (gateway_state\<lparr>trace :=
       [Called (Send_attributes (JStr ''RemoteLoggingLevel'') (JStr ''DEBUG''))]\<rparr>)"
proof -
  let ?hs = "handlers quiet_env 0"
  let ?st1 = "gateway_state\<lparr>in_process := True, trace :=
       [Called (Send_attributes (JStr ''RemoteLoggingLevel'') (JStr ''DEBUG''))]\<rparr>"
  have idle: "\<not> in_process gateway_state"
    by (simp add: gateway_state_def)
  have before: "process_keys quiet_env ?hs [(''RemoteLoggingLevel'', JStr ''DEBUG'')]
      (gateway_state\<lparr>in_process := True\<rparr>) = Returned () ?st1"
    by (simp add: handlers_def is_modified_def resolve_file_path_def
        modifiable_static_attrs_def handle_remote_logging_level_update_def
        general_defs eval_defs gateway_state_def quiet_env_def Let_def)
  have fails: "process_keys quiet_env ?hs [(''general_configuration'', JList [])] ?st1
      = Raised TypeError ?st1"
    by (simp add: handlers_def is_modified_def resolve_file_path_def
        modifiable_static_attrs_def general_defs eval_defs gateway_state_def
        quiet_env_def Let_def)
  from failing_key_ends_batch [OF idle before fails,
      of "[(''RemoteLoggingLevel'', JStr ''INFO'')]"]
  show ?thesis by (simp add: gateway_state_def)
qed

end
